theory Spec2Isabelle
  imports Complex_Main "HOL-Library.Sublist" "HOL-Library.AList"
begin

section \<open>Price table extraction (tools/docling-api/price\_table\_extraction.py)\<close>

text \<open>
  A shallow embedding of \<^verbatim>\<open>extract_price_tables_from_text\<close> and of the helper
  functions nested in it. A Python \<^verbatim>\<open>str\<close> is a sequence of Unicode code points and
  is modelled as a list of natural numbers; \<open>str\<close> turns an ASCII literal into such a
  list, other code points are written as numbers (\<open>8364\<close> is the euro sign).
\<close>

subsection \<open>Strings and the library functions the module calls\<close>

type_synonym uchar = nat
type_synonym ustr = "uchar list"

definition str :: "string \<Rightarrow> ustr" where
  "str s = map of_char s"

text \<open>
  What \<^verbatim>\<open>float(s)\<close> returns: the double nearest to a decimal literal, an infinity or
  a NaN. \<open>Dec q\<close> stands for the double that Python gives to a literal of exact value
  \<open>q\<close>; the rounding to 53 bits is a function of \<open>q\<close> and is not modelled.
\<close>

datatype pyfloat = Dec rat | Inf bool | NaN

text \<open>
  The tables and parsers of the Python runtime that the module relies on
  (\<^verbatim>\<open>unicodedata.normalize('NFKD', s)\<close>, \<^verbatim>\<open>unicodedata.combining(ch) != 0\<close>,
  \<^verbatim>\<open>str.lower\<close>, the white space of \<^verbatim>\<open>str.strip()\<close> and of \<^verbatim>\<open>\s\<close>, the decimal
  digits of \<^verbatim>\<open>\d\<close>, and \<^verbatim>\<open>float\<close> with \<open>None\<close> for a \<^verbatim>\<open>ValueError\<close>) are not part
  of the repository. Every function below takes them as the parameter \<open>U\<close>, so the
  general theorems hold for whatever these tables contain.
\<close>

record pylib =
  unicode_nfkd :: "ustr \<Rightarrow> ustr"
  unicode_combining :: "uchar \<Rightarrow> bool"
  str_lower :: "ustr \<Rightarrow> ustr"
  isspace :: "uchar \<Rightarrow> bool"
  isdecimal :: "uchar \<Rightarrow> bool"
  float_of :: "ustr \<Rightarrow> pyfloat option"

text \<open>\<^verbatim>\<open>sub in s\<close> for strings: \<open>sub\<close> occurs in \<open>s\<close> as a contiguous piece.\<close>

fun str_in :: "ustr \<Rightarrow> ustr \<Rightarrow> bool" where
  "str_in sub [] = (sub = [])"
| "str_in sub (x # xs) = (prefix sub (x # xs) \<or> str_in sub xs)"

text \<open>
  \<^verbatim>\<open>s.replace(old, new)\<close>: the occurrences of \<open>old\<close> are replaced from left to right
  and do not overlap; an empty \<open>old\<close> matches before every character and at the end.
\<close>

function str_replace :: "ustr \<Rightarrow> ustr \<Rightarrow> ustr \<Rightarrow> ustr" where
  "str_replace old new [] = (if old = [] then new else [])"
| "str_replace old new (x # xs) =
     (if old = [] then new @ x # str_replace old new xs
      else if prefix old (x # xs)
        then new @ str_replace old new (drop (length old) (x # xs))
      else x # str_replace old new xs)"
  by pat_completeness auto
termination
  by (relation "measure (\<lambda>(old, new, s). length s)") (auto simp: neq_Nil_conv)

text \<open>\<^verbatim>\<open>s.strip()\<close> and \<^verbatim>\<open>s.strip(chars)\<close>.\<close>

definition strip_by :: "(uchar \<Rightarrow> bool) \<Rightarrow> ustr \<Rightarrow> ustr" where
  "strip_by P s = rev (dropWhile P (rev (dropWhile P s)))"

definition str_strip :: "pylib \<Rightarrow> ustr \<Rightarrow> ustr" where
  "str_strip U s = strip_by (isspace U) s"

definition str_strip_chars :: "ustr \<Rightarrow> ustr \<Rightarrow> ustr" where
  "str_strip_chars chars s = strip_by (\<lambda>c. c \<in> set chars) s"

text \<open>\<^verbatim>\<open>s.split(sep)\<close> for a separator of one character: never an empty list.\<close>

fun str_split :: "uchar \<Rightarrow> ustr \<Rightarrow> ustr list" where
  "str_split sep [] = [[]]"
| "str_split sep (x # xs) =
     (if x = sep then [] # str_split sep xs
      else (let ps = str_split sep xs in (x # hd ps) # tl ps))"

text \<open>
  \<^verbatim>\<open>re.split(r'\s{2,}', s)\<close>: the separators are the maximal runs of at least two
  white-space characters (the quantifier is greedy and the scan is leftmost).
\<close>

function re_split_spaces :: "pylib \<Rightarrow> ustr \<Rightarrow> ustr list" where
  "re_split_spaces U [] = [[]]"
| "re_split_spaces U (x # xs) =
     (if isspace U x \<and> xs \<noteq> [] \<and> isspace U (hd xs)
      then [] # re_split_spaces U (dropWhile (isspace U) xs)
      else (let ps = re_split_spaces U xs in (x # hd ps) # tl ps))"
  by pat_completeness auto
termination
  by (relation "measure (\<lambda>(U, s). length s)")
     (auto simp: length_dropWhile_le less_Suc_eq_le)

text \<open>\<^verbatim>\<open>re.sub(r"[ \t]+", " ", s)\<close>: every run of spaces and tabs becomes one space.\<close>

definition blank :: "uchar \<Rightarrow> bool" where
  "blank c = (c = 32 \<or> c = 9)"

function re_sub_blanks :: "ustr \<Rightarrow> ustr" where
  "re_sub_blanks [] = []"
| "re_sub_blanks (x # xs) =
     (if blank x then 32 # re_sub_blanks (dropWhile blank xs)
      else x # re_sub_blanks xs)"
  by pat_completeness auto
termination
  by (relation "measure length") (auto simp: length_dropWhile_le less_Suc_eq_le)

subsection \<open>Helpers: normalization\<close>

text \<open>
  The \<^verbatim>\<open>isinstance(s, str)\<close> guards of the helpers are not modelled: the embedding is
  typed, every argument is a string.
\<close>

definition strip_accents :: "pylib \<Rightarrow> ustr \<Rightarrow> ustr" where
  "strip_accents U s = filter (\<lambda>ch. \<not> unicode_combining U ch) (unicode_nfkd U s)"

definition newlines :: "ustr \<Rightarrow> ustr" where
  "newlines s = str_replace [13] [10] (str_replace [13, 10] [10] s)"

definition unify_punct :: "ustr \<Rightarrow> ustr" where
  "unify_punct s =
     str_replace (str ''kwh'') (str ''kwh'')
       (str_replace (str ''k w'') (str ''kw'')
         (str_replace (99 # 8364 # str '' /'') (99 # 8364 # str ''/'')
           (str_replace (8364 # str '' /'') (8364 # str ''/'') s)))"

definition normalize_text :: "pylib \<Rightarrow> ustr \<Rightarrow> ustr" where
  "normalize_text U s =
     re_sub_blanks (unify_punct (newlines (str_lower U (strip_accents U s))))"

subsection \<open>The regular expressions of the module\<close>

text \<open>
  The patterns of the module are sequences of one-character atoms (a literal character,
  \<^verbatim>\<open>\s\<close>, \<^verbatim>\<open>\d\<close>), each with a quantifier (none, \<^verbatim>\<open>?\<close>, the lazy \<^verbatim>\<open>??\<close>,
  \<^verbatim>\<open>*\<close>, \<^verbatim>\<open>+\<close>), and \<^verbatim>\<open>^\<close>, which holds at the start of the string only (no
  pattern is compiled with a flag).
\<close>

datatype atom = Ch uchar | Space | Digit

datatype quant = One | Opt | LazyOpt | Star | Plus

datatype item = Item atom quant | Bos

type_synonym regex = "item list"

fun atom_ok :: "pylib \<Rightarrow> atom \<Rightarrow> uchar \<Rightarrow> bool" where
  "atom_ok U (Ch c) x = (x = c)"
| "atom_ok U Space x = isspace U x"
| "atom_ok U Digit x = isdecimal U x"

text \<open>
  The backtracking matcher of \<^verbatim>\<open>re\<close>: \<open>rx_match U r bos s\<close> matches \<open>r\<close> at the start
  of \<open>s\<close> and returns what is left of \<open>s\<close> after the first match in the order in which
  Python tries the alternatives (a greedy quantifier takes the longer match first, a
  lazy one the shorter); \<open>bos\<close> says whether \<open>s\<close> is the whole subject string.
\<close>

fun rx_match :: "pylib \<Rightarrow> regex \<Rightarrow> bool \<Rightarrow> ustr \<Rightarrow> ustr option" where
  "rx_match U [] bos s = Some s"
| "rx_match U (Bos # r) bos s = (if bos then rx_match U r bos s else None)"
| "rx_match U (Item a One # r) bos [] = None"
| "rx_match U (Item a One # r) bos (x # xs) =
     (if atom_ok U a x then rx_match U r False xs else None)"
| "rx_match U (Item a Opt # r) bos [] = rx_match U r bos []"
| "rx_match U (Item a Opt # r) bos (x # xs) =
     (if atom_ok U a x
      then (case rx_match U r False xs of
              Some e \<Rightarrow> Some e
            | None \<Rightarrow> rx_match U r bos (x # xs))
      else rx_match U r bos (x # xs))"
| "rx_match U (Item a LazyOpt # r) bos [] = rx_match U r bos []"
| "rx_match U (Item a LazyOpt # r) bos (x # xs) =
     (case rx_match U r bos (x # xs) of
        Some e \<Rightarrow> Some e
      | None \<Rightarrow> if atom_ok U a x then rx_match U r False xs else None)"
| "rx_match U (Item a Star # r) bos [] = rx_match U r bos []"
| "rx_match U (Item a Star # r) bos (x # xs) =
     (if atom_ok U a x
      then (case rx_match U (Item a Star # r) False xs of
              Some e \<Rightarrow> Some e
            | None \<Rightarrow> rx_match U r bos (x # xs))
      else rx_match U r bos (x # xs))"
| "rx_match U (Item a Plus # r) bos [] = None"
| "rx_match U (Item a Plus # r) bos (x # xs) =
     (if atom_ok U a x then rx_match U (Item a Star # r) False xs else None)"

text \<open>
  \<^verbatim>\<open>pattern.search(s, pos)\<close>: the leftmost index \<open>i \<ge> pos\<close> at which the pattern
  matches, with the end of the match there. \<open>rx_scan U r i t\<close> scans the suffix \<open>t\<close>
  of the subject that starts at index \<open>i\<close>.
\<close>

fun rx_scan :: "pylib \<Rightarrow> regex \<Rightarrow> nat \<Rightarrow> ustr \<Rightarrow> (nat \<times> nat) option" where
  "rx_scan U r i [] =
     (case rx_match U r (i = 0) [] of Some e \<Rightarrow> Some (i, i) | None \<Rightarrow> None)"
| "rx_scan U r i (x # xs) =
     (case rx_match U r (i = 0) (x # xs) of
        Some e \<Rightarrow> Some (i, i + (length (x # xs) - length e))
      | None \<Rightarrow> rx_scan U r (Suc i) xs)"

definition rx_search :: "pylib \<Rightarrow> regex \<Rightarrow> ustr \<Rightarrow> nat \<Rightarrow> (nat \<times> nat) option" where
  "rx_search U r s pos = (if pos \<le> length s then rx_scan U r pos (drop pos s) else None)"

definition lit :: "string \<Rightarrow> regex" where
  "lit s = map (\<lambda>c. Item (Ch (of_char c)) One) s"

definition spaces1 :: regex where
  "spaces1 = [Item Space Plus]"

definition spaces0 :: regex where
  "spaces0 = [Item Space Star]"

definition euro :: uchar where
  "euro = 8364"

definition potencia_start_rx :: regex where
  "potencia_start_rx =
     lit ''termino'' @ spaces1 @ lit ''de'' @ spaces1 @ lit ''potencia'' @ spaces0 @
     lit ''('' @ spaces0 @ [Item (Ch euro) One, Item (Ch 47) Opt] @ spaces0 @
     [Item (Ch 47) LazyOpt] @ spaces0 @ lit ''kw'' @ spaces0 @ lit ''y'' @ spaces0 @
     lit ''dia'' @ spaces0 @ lit '')''"

definition potencia_end_rx :: regex where
  "potencia_end_rx =
     lit ''estos'' @ spaces1 @ lit ''precios'' @ spaces1 @ lit ''lleva'' @
     [Item (Ch 114) Opt, Item (Ch 110) Opt] @ spaces1 @ lit ''incluidos''"

definition potencia_title_rx :: regex where
  "potencia_title_rx =
     lit ''precio'' @ spaces1 @ lit ''potencia'' @ spaces0 @ lit ''('' @ spaces0 @
     [Item (Ch euro) One, Item (Ch 47) Opt] @ spaces0 @ lit ''kw'' @ spaces0 @
     lit ''y'' @ spaces0 @ lit ''dia'' @ spaces0 @ lit '')''"

definition clasica_base_te :: regex where
  "clasica_base_te =
     lit ''precio'' @ spaces1 @ lit ''clasica'' @ spaces1 @ lit ''base'' @ spaces1 @
     lit ''te'' @ spaces0"

definition c_euro_kwh :: regex where
  "c_euro_kwh =
     spaces0 @ lit ''('' @ spaces0 @ lit ''c'' @ [Item (Ch euro) One, Item (Ch 47) Opt] @
     spaces0 @ lit ''kwh'' @ spaces0 @ lit '')''"

definition clasica_base_start_rx :: regex where
  "clasica_base_start_rx = clasica_base_te @ [Item Digit One] @ c_euro_kwh"

definition clasica_base_end_rx :: regex where
  "clasica_base_end_rx = clasica_base_te @ [Item Digit One] @ spaces1 @ lit ''unica''"

definition clasica_base_title_rx :: regex where
  "clasica_base_title_rx = clasica_base_te @ [Item Digit Plus] @ c_euro_kwh"

definition unica_start_rx :: regex where
  "unica_start_rx =
     clasica_base_te @ [Item Digit One] @ spaces1 @ lit ''unica'' @ c_euro_kwh"

definition unica_end_rx :: regex where
  "unica_end_rx =
     lit ''en'' @ spaces1 @ lit ''caso'' @ spaces1 @ lit ''de'' @ spaces1 @ lit ''no'' @
     spaces1 @ lit ''marcar'' @ spaces1 @ lit ''la'' @ spaces1 @ lit ''casilla''"

text \<open>
  \<^verbatim>\<open>pattern.finditer(s)\<close>: the matches from left to right, each search resuming where the
  previous match ended. The one pattern the module iterates consumes at least one
  character; after an empty match the model resumes one character further.
\<close>

function finditer :: "pylib \<Rightarrow> regex \<Rightarrow> ustr \<Rightarrow> nat \<Rightarrow> (nat \<times> nat) list" where
  "finditer U r s pos =
     (case rx_search U r s pos of
        None \<Rightarrow> []
      | Some (i, e) \<Rightarrow> (i, e) # finditer U r s (if i < e then e else Suc e))"
  by pat_completeness auto
termination
proof (relation "measure (\<lambda>(U, r, s, pos). Suc (length s) - pos)", goal_cases)
  case 1
  show ?case by simp
next
  case (2 U r s pos x2 i e)
  have scan: "rx_scan U r k t = Some (a, b) \<Longrightarrow> k \<le> a \<and> a \<le> b \<and> b \<le> k + length t"
    for k t a b
  proof (induction t arbitrary: k)
    case Nil
    then show ?case by (auto split: option.splits)
  next
    case (Cons x xs)
    show ?case
    proof (cases "rx_match U r (k = 0) (x # xs)")
      case None
      with Cons.prems have "rx_scan U r (Suc k) xs = Some (a, b)" by simp
      from Cons.IH [OF this] show ?thesis by simp
    next
      case (Some rest)
      with Cons.prems show ?thesis by auto
    qed
  qed
  from 2 have "pos \<le> length s" and "rx_scan U r pos (drop pos s) = Some (i, e)"
    by (auto simp: rx_search_def split: if_splits)
  from scan [OF this(2)] this(1) have "pos \<le> i" "i \<le> e" "e \<le> length s" by auto
  then show ?case by auto
qed

declare finditer.simps [simp del]

subsection \<open>Helpers: cells and columns\<close>

text \<open>A cell of a table: \<^verbatim>\<open>None\<close>, a float or a string.\<close>

datatype cell = Null | Number pyfloat | Text ustr

definition em_dash :: uchar where
  "em_dash = 8212"

definition en_dash :: uchar where
  "en_dash = 8211"

definition cleaned_value :: "pylib \<Rightarrow> ustr \<Rightarrow> ustr" where
  "cleaned_value U v = str_strip U (str_replace (str ''|'') [] v)"

definition standardized_value :: "ustr \<Rightarrow> ustr" where
  "standardized_value c = str_replace (str '','') (str ''.'') (str_replace (str ''.'') [] c)"

definition clean_and_convert :: "pylib \<Rightarrow> ustr \<Rightarrow> cell" where
  "clean_and_convert U v =
     (let c = cleaned_value U v in
      if c \<in> set [[em_dash], str ''-'', []] then Null
      else (case float_of U (standardized_value c) of
              Some f \<Rightarrow> Number f
            | None \<Rightarrow> Text c))"

text \<open>
  A columnar table is a Python \<^verbatim>\<open>dict\<close> from header to list of cells: an association
  list in insertion order, \<open>[]\<close> for \<^verbatim>\<open>{}\<close>. \<open>AList.update\<close> is the assignment
  \<^verbatim>\<open>d[k] = v\<close> (a new key goes to the end), \<open>AList.map_entry\<close> changes the value of
  a key that is there.
\<close>

type_synonym table = "(ustr \<times> cell list) list"

fun first_index :: "('a \<Rightarrow> bool) \<Rightarrow> 'a list \<Rightarrow> nat option" where
  "first_index P [] = None"
| "first_index P (x # xs) =
     (if P x then Some 0 else map_option Suc (first_index P xs))"

definition has_headers :: "ustr list \<Rightarrow> ustr \<Rightarrow> bool" where
  "has_headers norm_headers line = list_all (\<lambda>h. str_in h line) norm_headers"

text \<open>The header row: one line, else two adjacent lines joined by a space.\<close>

definition header_row_index :: "pylib \<Rightarrow> ustr list \<Rightarrow> ustr list \<Rightarrow> nat option" where
  "header_row_index U norm_headers lines =
     (case first_index (has_headers norm_headers) lines of
        Some i \<Rightarrow> Some i
      | None \<Rightarrow>
          if 2 \<le> length lines
          then first_index
                 (\<lambda>(l1, l2). has_headers norm_headers (str_strip U (l1 @ str '' '' @ l2)))
                 (zip lines (tl lines))
          else None)"

text \<open>The fragments of a data line: split on bars if there is one, else on wide gaps.\<close>

definition line_parts :: "pylib \<Rightarrow> ustr \<Rightarrow> ustr list" where
  "line_parts U line =
     map (str_strip U)
       (filter (\<lambda>p. str_strip U p \<noteq> [])
          (if 124 \<in> set line then str_split 124 line else re_split_spaces U line))"

definition dash_like :: "uchar \<Rightarrow> bool" where
  "dash_like c = (c \<in> set [45, en_dash, em_dash])"

definition skipped :: "ustr list \<Rightarrow> bool" where
  "skipped parts = (parts = [] \<or> list_all dash_like (hd parts))"

definition append_cell :: "ustr \<Rightarrow> cell \<Rightarrow> table \<Rightarrow> table" where
  "append_cell header v columns = AList.map_entry header (\<lambda>vs. vs @ [v]) columns"

definition add_row :: "pylib \<Rightarrow> ustr list \<Rightarrow> ustr list \<Rightarrow> table \<Rightarrow> table" where
  "add_row U headers parts columns =
     fold (\<lambda>(idx, header).
             append_cell header
               (if idx < length parts then clean_and_convert U (parts ! idx) else Null))
          (enumerate 0 headers) columns"

definition add_line :: "pylib \<Rightarrow> ustr list \<Rightarrow> ustr \<Rightarrow> table \<Rightarrow> table" where
  "add_line U headers line columns =
     (let parts = line_parts U line in
      if skipped parts then columns else add_row U headers parts columns)"

definition max_len :: "table \<Rightarrow> nat" where
  "max_len columns = fold (\<lambda>(k, v) m. max m (length v)) columns 0"

definition pad_columns :: "ustr list \<Rightarrow> table \<Rightarrow> table" where
  "pad_columns headers columns =
     (if columns \<noteq> []
      then fold (\<lambda>header.
                   AList.map_entry header
                     (\<lambda>vs. vs @ replicate (max_len columns - length vs) Null))
                headers columns
      else columns)"

text \<open>
  \<open>parse_table_to_columns\<close>. No step of the body raises on strings, so the
  \<^verbatim>\<open>except Exception\<close> branch is not a branch of the model. As in the source,
  \<open>orig_text\<close> is a parameter that the body never reads.
\<close>

definition parse_table_to_columns ::
  "pylib \<Rightarrow> ustr \<Rightarrow> ustr \<Rightarrow> ustr list \<Rightarrow> regex \<Rightarrow> regex option \<Rightarrow> table" where
  "parse_table_to_columns U orig_text norm_text headers start_pattern end_pattern =
     (case rx_search U start_pattern norm_text 0 of
        None \<Rightarrow> []
      | Some (start_idx, start_end) \<Rightarrow>
          let end_m = (case end_pattern of
                         Some ep \<Rightarrow> rx_search U ep norm_text start_idx
                       | None \<Rightarrow> None);
              table_block = (case end_m of
                               Some (end_idx, end_end) \<Rightarrow>
                                 take (end_idx - start_idx) (drop start_idx norm_text)
                             | None \<Rightarrow> drop start_idx norm_text);
              lines = str_split 10 (str_strip U table_block);
              norm_headers = map (normalize_text U) headers
          in (case header_row_index U norm_headers lines of
                None \<Rightarrow> []
              | Some i \<Rightarrow>
                  pad_columns headers
                    (fold (add_line U headers) (drop (i + 1) lines)
                       (fold (\<lambda>header. AList.update header []) headers []))))"

definition expand_unica_table :: "table \<Rightarrow> table" where
  "expand_unica_table table_data =
     (if table_data = [] \<or> map_of table_data (str ''P1 - P6'') = None then []
      else
        let price_values = (case map_of table_data (str ''P1 - P6'') of
                              Some v \<Rightarrow> v
                            | None \<Rightarrow> []);
            e1 = (case map_of table_data (str ''TARIFA'') of
                    Some v \<Rightarrow> AList.update (str ''TARIFA'') v []
                  | None \<Rightarrow> []);
            e2 = (case map_of table_data (str ''POTENCIA CONTRATADA'') of
                    Some v \<Rightarrow> AList.update (str ''POTENCIA CONTRATADA'') v e1
                  | None \<Rightarrow> e1)
        in fold (\<lambda>i. AList.update [80, 48 + i] price_values) [1..<7] e2)"

text \<open>A row of the result: the eight keys of the \<^verbatim>\<open>row\<close> dictionary.\<close>

record tariff_row =
  tarifa :: cell
  potencia_contratada :: cell
  P1 :: cell
  P2 :: cell
  P3 :: cell
  P4 :: cell
  P5 :: cell
  P6 :: cell

text \<open>
  \<^verbatim>\<open>columns.get(key, ...)[i] if len(columns.get(key, [])) > i else None\<close>
\<close>

definition column_at :: "table \<Rightarrow> ustr \<Rightarrow> nat \<Rightarrow> cell" where
  "column_at columns key i =
     (case map_of columns key of
        Some v \<Rightarrow> if i < length v then v ! i else Null
      | None \<Rightarrow> Null)"

definition row_at :: "table \<Rightarrow> nat \<Rightarrow> tariff_row" where
  "row_at columns i =
     \<lparr>tarifa = column_at columns (str ''TARIFA'') i,
      potencia_contratada = column_at columns (str ''POTENCIA CONTRATADA'') i,
      P1 = column_at columns (str ''P1'') i,
      P2 = column_at columns (str ''P2'') i,
      P3 = column_at columns (str ''P3'') i,
      P4 = column_at columns (str ''P4'') i,
      P5 = column_at columns (str ''P5'') i,
      P6 = column_at columns (str ''P6'') i\<rparr>"

definition columns_to_tarifas :: "table \<Rightarrow> tariff_row list" where
  "columns_to_tarifas columns =
     (if columns = [] then [] else map (row_at columns) [0..<max_len columns])"

subsection \<open>Titles\<close>

definition title_matches :: "pylib \<Rightarrow> regex \<Rightarrow> ustr \<Rightarrow> bool" where
  "title_matches U rx s = (rx_search U rx (normalize_text U s) 0 \<noteq> None)"

definition clean_title :: "pylib \<Rightarrow> regex \<Rightarrow> ustr \<Rightarrow> ustr" where
  "clean_title U rx line =
     (let cleaned =
            str_strip U (str_strip_chars (str ''|'') (str_strip_chars (str ''#'')
              (str_strip U line)))
      in if 124 \<in> set cleaned
         then (case find (title_matches U rx)
                      (map (str_strip U)
                         (filter (\<lambda>p. str_strip U p \<noteq> []) (str_split 124 cleaned))) of
                 Some part \<Rightarrow> str_strip U part
               | None \<Rightarrow> cleaned)
         else cleaned)"

definition find_title_line :: "pylib \<Rightarrow> ustr \<Rightarrow> regex \<Rightarrow> ustr option" where
  "find_title_line U orig_text title_rx_norm =
     (if orig_text = [] then None
      else (case find (title_matches U title_rx_norm) (str_split 10 (newlines orig_text)) of
              Some line \<Rightarrow>
                (let cleaned = clean_title U title_rx_norm line
                 in if cleaned \<noteq> [] then Some cleaned else None)
            | None \<Rightarrow> None))"

text \<open>\<^verbatim>\<open>find_title_line(...) or default\<close>\<close>

definition or_default :: "ustr option \<Rightarrow> ustr \<Rightarrow> ustr" where
  "or_default r d = (case r of Some t \<Rightarrow> if t \<noteq> [] then t else d | None \<Rightarrow> d)"

subsection \<open>The entry point\<close>

record tabla =
  titulo :: ustr
  tarifas :: "tariff_row list"

record termino_de_potencia_t =
  potencia_titulo :: ustr
  tabla_precio_potencia :: tabla

record termino_de_energia_t =
  energia_titulo :: ustr
  tabla_precio_clasica_base :: tabla
  tabla_precio_clasica_unica :: tabla

record extraction_result =
  filename :: ustr
  termino_de_potencia :: termino_de_potencia_t
  termino_de_energia :: termino_de_energia_t

definition potencia_headers :: "ustr list" where
  "potencia_headers =
     map str [''TARIFA'', ''POTENCIA CONTRATADA'', ''P1'', ''P2'', ''P3'', ''P4'', ''P5'', ''P6'']"

definition clasica_base_headers :: "ustr list" where
  "clasica_base_headers =
     map str [''TARIFA'', ''POTENCIA CONTRATADA'', ''P1'', ''P2'', ''P3'', ''P4'', ''P5'', ''P6'']"

definition unica_headers :: "ustr list" where
  "unica_headers = map str [''TARIFA'', ''POTENCIA CONTRATADA'', ''P1 - P6'']"

text \<open>
  The loop \<^verbatim>\<open>for match in unica_start_rx.finditer(norm): last_unica_m = match\<close> and the
  parse of the slice that starts at the last match, \<open>[]\<close> when there is no match.
\<close>

definition unica_data_raw :: "pylib \<Rightarrow> ustr \<Rightarrow> ustr \<Rightarrow> table" where
  "unica_data_raw U text norm_t =
     (case finditer U unica_start_rx norm_t 0 of
        [] \<Rightarrow> []
      | m # ms \<Rightarrow>
          parse_table_to_columns U text (drop (fst (last (m # ms))) norm_t) unica_headers
            (Bos # unica_start_rx) (Some unica_end_rx))"

text \<open>The fixed strings of the result, with their accented letters as code points.\<close>

definition company_name :: ustr where
  "company_name = str ''Total Energies''"

definition titulo_termino_de_potencia :: ustr where
  "titulo_termino_de_potencia =
     str ''T'' @ [201] @ str ''RMINO DE POTENCIA ('' @ [euro] @ str ''/kW y d'' @ [237] @
     str ''a)''"

definition titulo_termino_de_energia :: ustr where
  "titulo_termino_de_energia =
     str ''T'' @ [201] @ str ''RMINO DE ENERG'' @ [205] @ str ''A (c'' @ [euro] @ str ''/kWh)''"

definition default_titulo_potencia :: ustr where
  "default_titulo_potencia =
     str ''PRECIO POTENCIA ('' @ [euro] @ str ''/kWd'' @ [237] @ str ''a)''"

definition default_titulo_base :: ustr where
  "default_titulo_base =
     str ''PRECIO CL'' @ [193] @ str ''SICA BASE TE3 (c'' @ [euro] @ str ''/kWh)''"

definition default_titulo_unica :: ustr where
  "default_titulo_unica =
     str ''PRECIO CL'' @ [193] @ str ''SICA BASE TE3 UNICA (c'' @ [euro] @ str ''/kWh)''"

definition extract_price_tables_from_text :: "pylib \<Rightarrow> ustr \<Rightarrow> extraction_result" where
  "extract_price_tables_from_text U text =
     (let norm_t = normalize_text U text;
          potencia_data =
            parse_table_to_columns U text norm_t potencia_headers
              potencia_start_rx (Some potencia_end_rx);
          clasica_base_data =
            parse_table_to_columns U text norm_t clasica_base_headers
              clasica_base_start_rx (Some clasica_base_end_rx);
          unica_data_expanded = expand_unica_table (unica_data_raw U text norm_t);
          titulo_potencia =
            or_default (find_title_line U text potencia_title_rx) default_titulo_potencia;
          titulo_base =
            or_default (find_title_line U text clasica_base_title_rx) default_titulo_base;
          titulo_unica =
            or_default (find_title_line U text unica_start_rx) default_titulo_unica
      in \<lparr>filename = company_name,
          termino_de_potencia =
            \<lparr>potencia_titulo = titulo_termino_de_potencia,
             tabla_precio_potencia =
               \<lparr>titulo = titulo_potencia, tarifas = columns_to_tarifas potencia_data\<rparr>\<rparr>,
          termino_de_energia =
            \<lparr>energia_titulo = titulo_termino_de_energia,
             tabla_precio_clasica_base =
               \<lparr>titulo = titulo_base, tarifas = columns_to_tarifas clasica_base_data\<rparr>,
             tabla_precio_clasica_unica =
               \<lparr>titulo = titulo_unica,
                tarifas = columns_to_tarifas unica_data_expanded\<rparr>\<rparr>\<rparr>)"

subsection \<open>The runtime tables on Latin text\<close>

text \<open>
  For the concrete inputs below the runtime tables are given on the Basic Latin and
  Latin-1 Supplement blocks (\<open>U+0000\<close> to \<open>U+00FF\<close>), where they are those of CPython;
  the white space is the full set of \<^verbatim>\<open>str.isspace\<close>. A code point above \<open>U+00FF\<close>
  is taken as it is: no decomposition, no case, not a digit, and combining only in
  \<open>U+0300\<close> to \<open>U+036F\<close> (the euro sign and the dashes of the module are such code
  points in CPython too). NFKD also reorders combining marks; \<open>strip_accents\<close> removes
  them all, so the order is left out.
\<close>

definition latin1_decomposition :: "(uchar \<times> ustr) list" where
  "latin1_decomposition =
     [
      (160, [32]), (168, [32, 776]), (170, [97]), (175, [32, 772]), (178, [50]),
      (179, [51]), (180, [32, 769]), (181, [956]), (184, [32, 807]), (185, [49]),
      (186, [111]), (188, [49, 8260, 52]), (189, [49, 8260, 50]), (190, [51, 8260, 52]), (192, [65, 768]),
      (193, [65, 769]), (194, [65, 770]), (195, [65, 771]), (196, [65, 776]), (197, [65, 778]),
      (199, [67, 807]), (200, [69, 768]), (201, [69, 769]), (202, [69, 770]), (203, [69, 776]),
      (204, [73, 768]), (205, [73, 769]), (206, [73, 770]), (207, [73, 776]), (209, [78, 771]),
      (210, [79, 768]), (211, [79, 769]), (212, [79, 770]), (213, [79, 771]), (214, [79, 776]),
      (217, [85, 768]), (218, [85, 769]), (219, [85, 770]), (220, [85, 776]), (221, [89, 769]),
      (224, [97, 768]), (225, [97, 769]), (226, [97, 770]), (227, [97, 771]), (228, [97, 776]),
      (229, [97, 778]), (231, [99, 807]), (232, [101, 768]), (233, [101, 769]), (234, [101, 770]),
      (235, [101, 776]), (236, [105, 768]), (237, [105, 769]), (238, [105, 770]), (239, [105, 776]),
      (241, [110, 771]), (242, [111, 768]), (243, [111, 769]), (244, [111, 770]), (245, [111, 771]),
      (246, [111, 776]), (249, [117, 768]), (250, [117, 769]), (251, [117, 770]), (252, [117, 776]),
      (253, [121, 769]), (255, [121, 776])]"

definition nfkd_char :: "uchar \<Rightarrow> ustr" where
  "nfkd_char c =
     (if c < 160 \<or> 255 < c then [c]
      else (case map_of latin1_decomposition c of Some d \<Rightarrow> d | None \<Rightarrow> [c]))"

definition latin1_combining :: "uchar \<Rightarrow> bool" where
  "latin1_combining c = (768 \<le> c \<and> c \<le> 879 \<and> c \<noteq> 847)"

definition latin1_lower :: "uchar \<Rightarrow> uchar" where
  "latin1_lower c =
     (if (65 \<le> c \<and> c \<le> 90) \<or> (192 \<le> c \<and> c \<le> 222 \<and> c \<noteq> 215) then c + 32 else c)"

definition unicode_space :: "uchar \<Rightarrow> bool" where
  "unicode_space c =
     ((9 \<le> c \<and> c \<le> 13) \<or> (28 \<le> c \<and> c \<le> 32) \<or> c = 133 \<or> c = 160 \<or> c = 5760 \<or>
      (8192 \<le> c \<and> c \<le> 8202) \<or> c = 8232 \<or> c = 8233 \<or> c = 8239 \<or> c = 8287 \<or>
      c = 12288)"

definition ascii_digit :: "uchar \<Rightarrow> bool" where
  "ascii_digit c = (48 \<le> c \<and> c \<le> 57)"

text \<open>
  \<^verbatim>\<open>float(s)\<close> on a string (CPython's \<^verbatim>\<open>PyFloat_FromString\<close>): white space around
  the literal is dropped (the ASCII white space and the white space above \<open>U+007F\<close>),
  an underscore may stand between two digits, and the literal is a sign followed by
  \<^verbatim>\<open>inf\<close>, \<^verbatim>\<open>infinity\<close>, \<^verbatim>\<open>nan\<close> or by digits with an optional point and an
  optional exponent. Anything else is a \<^verbatim>\<open>ValueError\<close>, here \<open>None\<close>.
\<close>

definition float_space :: "uchar \<Rightarrow> bool" where
  "float_space c = (c = 32 \<or> (9 \<le> c \<and> c \<le> 13) \<or> (127 \<le> c \<and> unicode_space c))"

fun underscores_ok :: "uchar \<Rightarrow> ustr \<Rightarrow> bool" where
  "underscores_ok prev [] = (prev \<noteq> 95)"
| "underscores_ok prev (c # cs) =
     ((if c = 95 then ascii_digit prev else if prev = 95 then ascii_digit c else True)
      \<and> underscores_ok c cs)"

definition digits_value :: "ustr \<Rightarrow> nat" where
  "digits_value ds = fold (\<lambda>c v. 10 * v + (c - 48)) ds 0"

definition parse_exponent :: "ustr \<Rightarrow> int option" where
  "parse_exponent s =
     (case s of
        [] \<Rightarrow> Some 0
      | c # cs \<Rightarrow>
          if c = 101 \<or> c = 69
          then (let neg = (cs \<noteq> [] \<and> hd cs = 45);
                    ds = (if cs \<noteq> [] \<and> (hd cs = 45 \<or> hd cs = 43) then tl cs else cs)
                in if ds \<noteq> [] \<and> list_all ascii_digit ds
                   then Some (if neg then - int (digits_value ds) else int (digits_value ds))
                   else None)
          else None)"

definition scale10 :: "nat \<Rightarrow> int \<Rightarrow> rat" where
  "scale10 m e = (if 0 \<le> e then of_nat m * 10 ^ nat e else of_nat m / 10 ^ nat (- e))"

definition parse_decimal :: "ustr \<Rightarrow> rat option" where
  "parse_decimal s =
     (let ip = takeWhile ascii_digit s;
          r1 = dropWhile ascii_digit s;
          point = (r1 \<noteq> [] \<and> hd r1 = 46);
          fp = (if point then takeWhile ascii_digit (tl r1) else []);
          r2 = (if point then dropWhile ascii_digit (tl r1) else r1)
      in if ip = [] \<and> fp = [] then None
         else (case parse_exponent r2 of
                 None \<Rightarrow> None
               | Some ex \<Rightarrow> Some (scale10 (digits_value (ip @ fp)) (ex - int (length fp)))))"

definition ascii_lower :: "uchar \<Rightarrow> uchar" where
  "ascii_lower c = (if 65 \<le> c \<and> c \<le> 90 then c + 32 else c)"

definition cpython_float :: "ustr \<Rightarrow> pyfloat option" where
  "cpython_float s =
     (let t = strip_by float_space s in
      if underscores_ok 0 t
      then (let t' = filter (\<lambda>c. c \<noteq> 95) t;
                neg = (t' \<noteq> [] \<and> hd t' = 45);
                b = (if t' \<noteq> [] \<and> (hd t' = 45 \<or> hd t' = 43) then tl t' else t');
                lb = map ascii_lower b
            in if lb = str ''inf'' \<or> lb = str ''infinity'' then Some (Inf (\<not> neg))
               else if lb = str ''nan'' then Some NaN
               else map_option (\<lambda>q. Dec (if neg then - q else q)) (parse_decimal b))
      else None)"

definition cpython :: pylib where
  "cpython =
     \<lparr>unicode_nfkd = (\<lambda>s. concat (map nfkd_char s)),
      unicode_combining = latin1_combining,
      str_lower = map latin1_lower,
      isspace = unicode_space,
      isdecimal = ascii_digit,
      float_of = cpython_float\<rparr>"

subsection \<open>Declared fields and example inputs\<close>

text \<open>The eight keys of a row, each with the header of the column it is read from.\<close>

definition declared_fields :: "(ustr \<times> (tariff_row \<Rightarrow> cell)) list" where
  "declared_fields =
     [(str ''TARIFA'', tarifa), (str ''POTENCIA CONTRATADA'', potencia_contratada),
      (str ''P1'', P1), (str ''P2'', P2), (str ''P3'', P3), (str ''P4'', P4),
      (str ''P5'', P5), (str ''P6'', P6)]"

definition two_columns :: table where
  "two_columns =
     [(str ''TARIFA'', [Text (str ''te1''), Text (str ''te2'')]),
      (str ''P1'', [Number (Dec 1)])]"

definition combined_table :: table where
  "combined_table =
     [(str ''TARIFA'', [Text (str ''te1''), Text (str ''te2'')]),
      (str ''P1 - P6'', [Number (Dec 10.5), Number (Dec 12.0)])]"

text \<open>
  The end-to-end example: the potencia start marker, a header line, one data line and
  the potencia end marker; then its normalized form, the lines of its table block and
  the columns parsed from it.
\<close>

definition potencia_example :: ustr where
  "potencia_example =
     str ''T'' @ [201] @ str ''RMINO DE POTENCIA ('' @ [8364] @ str ''/kW y d'' @ [237] @
     str ''a)'' @ [10] @
     str ''TARIFA | POTENCIA CONTRATADA | P1 | P2 | P3 | P4 | P5 | P6'' @ [10] @
     str ''TE1 | 3.45 | 0,12 | 0,15 | 0,10 | 0,10 | 0,15 | 0,12'' @ [10] @
     str ''Estos precios llevan incluidos''"

definition potencia_example_norm :: ustr where
  "potencia_example_norm =
     str ''termino de potencia ('' @ [8364] @ str ''/kw y dia)'' @ [10] @
     str ''tarifa | potencia contratada | p1 | p2 | p3 | p4 | p5 | p6'' @ [10] @
     str ''te1 | 3.45 | 0,12 | 0,15 | 0,10 | 0,10 | 0,15 | 0,12'' @ [10] @
     str ''estos precios llevan incluidos''"

definition potencia_example_columns :: table where
  "potencia_example_columns =
     [(str ''TARIFA'', [Text (str ''te1'')]),
      (str ''POTENCIA CONTRATADA'', [Number (Dec 345)]),
      (str ''P1'', [Number (Dec 0.12)]), (str ''P2'', [Number (Dec 0.15)]),
      (str ''P3'', [Number (Dec 0.10)]), (str ''P4'', [Number (Dec 0.10)]),
      (str ''P5'', [Number (Dec 0.15)]), (str ''P6'', [Number (Dec 0.12)])]"

definition potencia_example_data_line :: ustr where
  "potencia_example_data_line =
     str ''te1 | 3.45 | 0,12 | 0,15 | 0,10 | 0,10 | 0,15 | 0,12''"

definition potencia_example_lines :: "ustr list" where
  "potencia_example_lines =
     [str ''termino de potencia ('' @ [8364] @ str ''/kw y dia)'',
      str ''tarifa | potencia contratada | p1 | p2 | p3 | p4 | p5 | p6'',
      potencia_example_data_line]"

text \<open>
  A text in which the unica start marker occurs twice, each time with a header line and
  one data line; the part from the second marker on, its lines and its columns.
\<close>

definition unica_example_tail :: ustr where
  "unica_example_tail =
     str ''precio clasica base te3 unica (c'' @ [8364] @ str ''/kwh)'' @ [10] @
     str ''tarifa | potencia contratada | p1 - p6'' @ [10] @
     str ''te3 | 10 | 12,5''"

definition unica_example :: ustr where
  "unica_example =
     str ''precio clasica base te3 unica (c'' @ [8364] @ str ''/kwh)'' @ [10] @
     str ''tarifa | potencia contratada | p1 - p6'' @ [10] @
     str ''vieja | 1 | 2'' @ [10] @ unica_example_tail"

definition unica_example_lines :: "ustr list" where
  "unica_example_lines =
     [str ''precio clasica base te3 unica (c'' @ [8364] @ str ''/kwh)'',
      str ''tarifa | potencia contratada | p1 - p6'',
      str ''te3 | 10 | 12,5'']"

definition unica_example_columns :: table where
  "unica_example_columns =
     [(str ''TARIFA'', [Text (str ''te3'')]),
      (str ''POTENCIA CONTRATADA'', [Number (Dec 10)]),
      (str ''P1 - P6'', [Number (Dec 12.5)])]"

text \<open>
  The string-valued cells of a column, of a table, of a row and of a whole result (the
  rows of its three tables).
\<close>

fun cell_text :: "cell \<Rightarrow> ustr list" where
  "cell_text (Text s) = [s]"
| "cell_text Null = []"
| "cell_text (Number f) = []"

definition column_texts :: "cell list \<Rightarrow> ustr list" where
  "column_texts v = concat (map cell_text v)"

definition table_texts :: "table \<Rightarrow> ustr list" where
  "table_texts columns = concat (map (\<lambda>(k, v). column_texts v) columns)"




text \<open>
  The column law in the words of the specification. \<open>located_data_lines\<close> is the
  locator (4.2): the lines below the header row of the region between the start marker
  and the end marker, \<open>None\<close> when the start marker or the header row is not found.
  \<open>kept_parts\<close> are the fragments of the lines that are not skipped (4.3), \<open>cell_at\<close>
  is the cell that a line gives to the header at position \<open>j\<close>: its converted fragment
  \<open>j\<close>, or \<open>Null\<close> when the line has fewer fragments. \<open>line_cells\<close> are the cells a
  line gives to the column of header \<open>h\<close>, one for each position where \<open>h\<close> stands in
  the header list, \<open>column_rows\<close> is that column over all kept lines, and
  \<open>longest_column\<close> is the length of the longest of these columns.
\<close>

definition located_data_lines ::
  "pylib \<Rightarrow> ustr \<Rightarrow> ustr list \<Rightarrow> regex \<Rightarrow> regex option \<Rightarrow> ustr list option"
  where
  "located_data_lines U norm_text headers start_pattern end_pattern =
     (case rx_search U start_pattern norm_text 0 of
        None \<Rightarrow> None
      | Some (start_idx, start_end) \<Rightarrow>
          let region = (case (case end_pattern of
                                Some ep \<Rightarrow> rx_search U ep norm_text start_idx
                              | None \<Rightarrow> None) of
                          Some (end_idx, end_end) \<Rightarrow>
                            take (end_idx - start_idx) (drop start_idx norm_text)
                        | None \<Rightarrow> drop start_idx norm_text);
              lines = str_split 10 (str_strip U region)
          in map_option (\<lambda>i. drop (i + 1) lines)
               (header_row_index U (map (normalize_text U) headers) lines))"

definition cell_at :: "pylib \<Rightarrow> ustr list \<Rightarrow> nat \<Rightarrow> cell" where
  "cell_at U parts j = (if j < length parts then clean_and_convert U (parts ! j) else Null)"

definition kept_parts :: "pylib \<Rightarrow> ustr list \<Rightarrow> ustr list list" where
  "kept_parts U ls = filter (\<lambda>parts. \<not> skipped parts) (map (line_parts U) ls)"

definition line_cells :: "pylib \<Rightarrow> ustr list \<Rightarrow> ustr \<Rightarrow> ustr list \<Rightarrow> cell list" where
  "line_cells U headers h parts =
     map (\<lambda>(j, k). cell_at U parts j) (filter (\<lambda>(j, k). k = h) (enumerate 0 headers))"

definition column_rows ::
  "pylib \<Rightarrow> ustr list \<Rightarrow> ustr list list \<Rightarrow> ustr \<Rightarrow> cell list" where
  "column_rows U headers kept h = concat (map (line_cells U headers h) kept)"

definition longest_column :: "pylib \<Rightarrow> ustr list \<Rightarrow> ustr list list \<Rightarrow> nat" where
  "longest_column U headers kept =
     fold (\<lambda>h m. max m (length (column_rows U headers kept h))) headers 0"

text \<open>
  Two regions with short lines: one under the potencia headers, with a line of two
  fragments and a line of three; one under a header list in which \<open>a\<close> stands twice,
  so that a line gives two cells to the column \<open>a\<close> and one to the column \<open>b\<close>.
\<close>

definition ragged_example :: ustr where
  "ragged_example =
     str ''termino de potencia ('' @ [8364] @ str ''/kw y dia)'' @ [10] @
     str ''tarifa | potencia contratada | p1 | p2 | p3 | p4 | p5 | p6'' @ [10] @
     str ''te1 | 1'' @ [10] @
     str ''te2 | 2 | 0,5''"

definition ragged_example_lines :: "ustr list" where
  "ragged_example_lines =
     [str ''termino de potencia ('' @ [8364] @ str ''/kw y dia)'',
      str ''tarifa | potencia contratada | p1 | p2 | p3 | p4 | p5 | p6'',
      str ''te1 | 1'',
      str ''te2 | 2 | 0,5'']"

definition repeated_headers :: "ustr list" where
  "repeated_headers = [str ''a'', str ''a'', str ''b'']"

definition repeated_example :: ustr where
  "repeated_example =
     str ''m'' @ [10] @ str ''a b'' @ [10] @ str ''1 | 2 | x'' @ [10] @ str ''3''"

section \<open>Properties\<close>

subsection \<open>The pivot\<close>

lemma max_len_fold:
  "fold (\<lambda>(k, v) m. max m (length v)) columns a =
     Max (insert a (set (map (length \<circ> snd) columns)))"
proof (induction columns arbitrary: a)
  case Nil
  show ?case by simp
next
  case (Cons c cs)
  obtain k v where c: "c = (k, v)" by (cases c)
  have "Max (insert (max a (length v)) (set (map (length \<circ> snd) cs)))
      = Max (insert a (insert (length v) (set (map (length \<circ> snd) cs))))"
    by (cases "cs = []") (simp_all add: max.assoc Max_insert max.left_commute)
  with Cons.IH [of "max a (length v)"] c show ?case by simp
qed

lemma max_len_Max: "max_len columns = Max (insert 0 (set (map (length \<circ> snd) columns)))"
  by (simp add: max_len_def max_len_fold)

lemma length_columns_to_tarifas: "length (columns_to_tarifas columns) = max_len columns"
  by (simp add: columns_to_tarifas_def max_len_def)

lemma nth_columns_to_tarifas:
  "i < max_len columns \<Longrightarrow> columns_to_tarifas columns ! i = row_at columns i"
  by (auto simp: columns_to_tarifas_def max_len_def)

lemma row_at_field:
  "(key, sel) \<in> set declared_fields \<Longrightarrow> sel (row_at columns i) = column_at columns key i"
  by (auto simp: declared_fields_def row_at_def)

text \<open>
  Claim C8 (pivot law). When the longest column of a columnar table has length \<open>N\<close>
  (\<open>0\<close> for the empty table), \<open>columns_to_tarifas\<close> returns exactly \<open>N\<close> rows. A row
  is a \<open>tariff_row\<close>, a record of exactly the eight fields \<open>tarifa\<close>,
  \<open>potencia_contratada\<close>, \<open>P1\<close> to \<open>P6\<close>; in row \<open>i\<close> each field holds entry \<open>i\<close> of
  its column, and \<open>Null\<close> when the column is absent or has no entry \<open>i\<close>.
\<close>

theorem pivot_law:
  assumes "N = Max (insert 0 (set (map (length \<circ> snd) columns)))"
  shows "length (columns_to_tarifas columns) = N \<and>
    (\<forall>i<N. \<forall>(key, sel)\<in>set declared_fields.
       sel (columns_to_tarifas columns ! i) =
         (case map_of columns key of
            None \<Rightarrow> Null
          | Some v \<Rightarrow> if i < length v then v ! i else Null))"
proof -
  from assms have N: "max_len columns = N"
    by (simp only: max_len_Max)
  have "sel (columns_to_tarifas columns ! i) =
         (case map_of columns key of
            None \<Rightarrow> Null
          | Some v \<Rightarrow> if i < length v then v ! i else Null)"
    if "i < N" and "(key, sel) \<in> set declared_fields" for i key sel
    using that N by (simp add: nth_columns_to_tarifas row_at_field column_at_def)
  with N show ?thesis
    by (auto simp: length_columns_to_tarifas)
qed

text \<open>
  The law at a table of two columns of lengths 2 and 1: two rows, and the second row
  is \<open>Null\<close> but for its \<open>tarifa\<close>.
\<close>

theorem pivot_law_witness:
  "length (columns_to_tarifas two_columns) = 2 \<and>
   columns_to_tarifas two_columns ! 1 =
     \<lparr>tarifa = Text (str ''te2''), potencia_contratada = Null, P1 = Null, P2 = Null,
      P3 = Null, P4 = Null, P5 = Null, P6 = Null\<rparr>"
proof -
  have N: "(2::nat) = Max (insert 0 (set (map (length \<circ> snd) two_columns)))"
    by (simp add: two_columns_def)
  note pl = pivot_law [OF N]
  from pl have len: "length (columns_to_tarifas two_columns) = 2" by simp
  have f: "sel (columns_to_tarifas two_columns ! 1) =
         (case map_of two_columns key of
            None \<Rightarrow> Null
          | Some v \<Rightarrow> if 1 < length v then v ! 1 else Null)"
    if "(key, sel) \<in> set declared_fields" for key sel
    using conjunct2 [OF pl, rule_format, of 1 "(key, sel)"] that by simp
  have "columns_to_tarifas two_columns ! 1 =
     \<lparr>tarifa = Text (str ''te2''), potencia_contratada = Null, P1 = Null, P2 = Null,
      P3 = Null, P4 = Null, P5 = Null, P6 = Null\<rparr>"
    using f [of "str ''TARIFA''" tarifa]
      f [of "str ''POTENCIA CONTRATADA''" potencia_contratada]
      f [of "str ''P1''" P1] f [of "str ''P2''" P2] f [of "str ''P3''" P3]
      f [of "str ''P4''" P4] f [of "str ''P5''" P5] f [of "str ''P6''" P6]
    by (cases "columns_to_tarifas two_columns ! 1")
       (simp add: declared_fields_def two_columns_def str_def)
  with len show ?thesis by simp
qed

subsection \<open>The fixed strings of the result\<close>

text \<open>
  Claim C10. Whatever the text, the result has the top-level field \<open>filename\<close> with the
  value \<^verbatim>\<open>Total Energies\<close>, and the two section titles are the fixed strings
  \<^verbatim>\<open>TERMINO DE POTENCIA (EUR/kW y dia)\<close> and \<^verbatim>\<open>TERMINO DE ENERGIA (cEUR/kWh)\<close> of the
  source, written with their accented capitals (code points 201 and 205), the accented
  \<open>i\<close> (237) and the euro sign (8364).
\<close>

theorem filename_and_section_titles:
  "filename (extract_price_tables_from_text U text) = str ''Total Energies'' \<and>
   potencia_titulo (termino_de_potencia (extract_price_tables_from_text U text)) =
     str ''T'' @ [201] @ str ''RMINO DE POTENCIA ('' @ [8364] @ str ''/kW y d'' @ [237] @ str ''a)'' \<and>
   energia_titulo (termino_de_energia (extract_price_tables_from_text U text)) =
     str ''T'' @ [201] @ str ''RMINO DE ENERG'' @ [205] @ str ''A (c'' @ [8364] @ str ''/kWh)''"
  by (simp add: extract_price_tables_from_text_def Let_def company_name_def
        titulo_termino_de_potencia_def titulo_termino_de_energia_def euro_def)

subsection \<open>The expansion of the combined column\<close>

lemma upt_1_7: "[Suc 0..<7] = [1, 2, 3, 4, 5, 6::nat]"
  by (simp add: upt_rec)

lemma header_strings:
  "str ''TARIFA'' = [84, 65, 82, 73, 70, 65]"
  "str ''POTENCIA CONTRATADA'' = [80, 79, 84, 69, 78, 67, 73, 65, 32, 67, 79, 78, 84, 82, 65, 84, 65, 68, 65]"
  "str ''P1 - P6'' = [80, 49, 32, 45, 32, 80, 54]"
  "str ''P1'' = [80, 49]" "str ''P2'' = [80, 50]" "str ''P3'' = [80, 51]"
  "str ''P4'' = [80, 52]" "str ''P5'' = [80, 53]" "str ''P6'' = [80, 54]"
  by (simp_all add: str_def)

text \<open>
  Claim C7 (period expansion). If the table has the combined column \<^verbatim>\<open>P1 - P6\<close>, the
  expanded table has the six columns \<open>P1\<close> to \<open>P6\<close>, each equal to the combined column
  (so all six are equal), the columns \<open>TARIFA\<close> and \<open>POTENCIA CONTRATADA\<close> are carried
  over as they are (present or absent), and there is no other column. If the combined
  column is absent, the expanded table is empty.
\<close>

theorem period_expansion:
  "(\<forall>v. map_of table_data (str ''P1 - P6'') = Some v \<longrightarrow>
      map_of (expand_unica_table table_data) (str ''P1'') = Some v \<and>
      map_of (expand_unica_table table_data) (str ''P2'') = Some v \<and>
      map_of (expand_unica_table table_data) (str ''P3'') = Some v \<and>
      map_of (expand_unica_table table_data) (str ''P4'') = Some v \<and>
      map_of (expand_unica_table table_data) (str ''P5'') = Some v \<and>
      map_of (expand_unica_table table_data) (str ''P6'') = Some v \<and>
      map_of (expand_unica_table table_data) (str ''TARIFA'') =
        map_of table_data (str ''TARIFA'') \<and>
      map_of (expand_unica_table table_data) (str ''POTENCIA CONTRATADA'') =
        map_of table_data (str ''POTENCIA CONTRATADA'') \<and>
      fst ` set (expand_unica_table table_data) \<subseteq>
        set (map str [''TARIFA'', ''POTENCIA CONTRATADA'',
                      ''P1'', ''P2'', ''P3'', ''P4'', ''P5'', ''P6''])) \<and>
   (map_of table_data (str ''P1 - P6'') = None \<longrightarrow> expand_unica_table table_data = [])"
proof -
  have ex: "expand_unica_table table_data =
      fold (\<lambda>i. AList.update [80, 48 + i] v) [1, 2, 3, 4, 5, 6]
        (case map_of table_data (str ''POTENCIA CONTRATADA'') of
           Some w \<Rightarrow>
             AList.update (str ''POTENCIA CONTRATADA'') w
               (case map_of table_data (str ''TARIFA'') of
                  Some v \<Rightarrow> AList.update (str ''TARIFA'') v []
                | None \<Rightarrow> [])
         | None \<Rightarrow>
             (case map_of table_data (str ''TARIFA'') of
                Some v \<Rightarrow> AList.update (str ''TARIFA'') v []
              | None \<Rightarrow> []))"
    if "map_of table_data (str ''P1 - P6'') = Some v" for v
  proof -
    from that have "table_data \<noteq> []" by auto
    with that show ?thesis
      unfolding expand_unica_table_def Let_def
      by (simp add: upt_1_7 split: option.split)
  qed
  have absent: "expand_unica_table table_data = []"
    if "map_of table_data (str ''P1 - P6'') = None"
    using that by (simp add: expand_unica_table_def)
  have periods: "map_of (expand_unica_table table_data) [80, 48 + i] = Some v"
    if "map_of table_data (str ''P1 - P6'') = Some v" "i \<in> {1, 2, 3, 4, 5, 6}" for v i
    using that(2) by (auto simp: ex [OF that(1)] update_conv')
  have carried1: "map_of (expand_unica_table table_data) (str ''TARIFA'') =
      map_of table_data (str ''TARIFA'')"
    if "map_of table_data (str ''P1 - P6'') = Some v" for v
    by (simp add: ex [OF that] update_conv' header_strings split: option.split)
  have carried2: "map_of (expand_unica_table table_data) (str ''POTENCIA CONTRATADA'') =
      map_of table_data (str ''POTENCIA CONTRATADA'')"
    if "map_of table_data (str ''P1 - P6'') = Some v" for v
    by (simp add: ex [OF that] update_conv' header_strings split: option.split)
  have keys: "fst ` set (expand_unica_table table_data) \<subseteq>
        set (map str [''TARIFA'', ''POTENCIA CONTRATADA'',
                      ''P1'', ''P2'', ''P3'', ''P4'', ''P5'', ''P6''])"
    if "map_of table_data (str ''P1 - P6'') = Some v" for v
    by (cases "map_of table_data (str ''TARIFA'')";
        cases "map_of table_data (str ''POTENCIA CONTRATADA'')")
       (simp_all add: ex [OF that] dom_update header_strings)
  show ?thesis
  proof (intro conjI allI impI)
    fix v assume v: "map_of table_data (str ''P1 - P6'') = Some v"
    from periods [OF v, of 1] show "map_of (expand_unica_table table_data) (str ''P1'') = Some v"
      by (simp add: header_strings)
    from periods [OF v, of 2] show "map_of (expand_unica_table table_data) (str ''P2'') = Some v"
      by (simp add: header_strings)
    from periods [OF v, of 3] show "map_of (expand_unica_table table_data) (str ''P3'') = Some v"
      by (simp add: header_strings)
    from periods [OF v, of 4] show "map_of (expand_unica_table table_data) (str ''P4'') = Some v"
      by (simp add: header_strings)
    from periods [OF v, of 5] show "map_of (expand_unica_table table_data) (str ''P5'') = Some v"
      by (simp add: header_strings)
    from periods [OF v, of 6] show "map_of (expand_unica_table table_data) (str ''P6'') = Some v"
      by (simp add: header_strings)
    from carried1 [OF v] show "map_of (expand_unica_table table_data) (str ''TARIFA'') =
        map_of table_data (str ''TARIFA'')" .
    from carried2 [OF v] show
      "map_of (expand_unica_table table_data) (str ''POTENCIA CONTRATADA'') =
        map_of table_data (str ''POTENCIA CONTRATADA'')" .
    from keys [OF v] show "fst ` set (expand_unica_table table_data) \<subseteq>
        set (map str [''TARIFA'', ''POTENCIA CONTRATADA'',
                      ''P1'', ''P2'', ''P3'', ''P4'', ''P5'', ''P6''])" .
  next
    assume "map_of table_data (str ''P1 - P6'') = None"
    then show "expand_unica_table table_data = []" by (rule absent)
  qed
qed

text \<open>
  The expansion of a table whose combined column is \<open>[10.5, 12.0]\<close>, and of a table
  without the combined column.
\<close>

theorem period_expansion_witness:
  "map_of (expand_unica_table combined_table) (str ''P1'') =
     Some [Number (Dec 10.5), Number (Dec 12.0)] \<and>
   map_of (expand_unica_table combined_table) (str ''P6'') =
     Some [Number (Dec 10.5), Number (Dec 12.0)] \<and>
   map_of (expand_unica_table combined_table) (str ''TARIFA'') =
     Some [Text (str ''te1''), Text (str ''te2'')] \<and>
   map_of (expand_unica_table combined_table) (str ''POTENCIA CONTRATADA'') = None \<and>
   expand_unica_table two_columns = []"
proof -
  have c: "map_of combined_table (str ''P1 - P6'') = Some [Number (Dec 10.5), Number (Dec 12.0)]"
    by (simp add: combined_table_def header_strings)
  have t: "map_of two_columns (str ''P1 - P6'') = None"
    by (simp add: two_columns_def header_strings)
  have m: "map_of combined_table (str ''TARIFA'') = Some [Text (str ''te1''), Text (str ''te2'')]"
      "map_of combined_table (str ''POTENCIA CONTRATADA'') = None"
    by (simp_all add: combined_table_def header_strings)
  from period_expansion [of combined_table] c m period_expansion [of two_columns] t
  show ?thesis by simp
qed

subsection \<open>Cells\<close>

lemmas cell_eval = clean_and_convert_def cleaned_value_def standardized_value_def
  str_strip_def strip_by_def cpython_def unicode_space_def str_def em_dash_def
  cpython_float_def float_space_def ascii_digit_def parse_decimal_def parse_exponent_def
  ascii_lower_def digits_value_def scale10_def Let_def

text \<open>
  Claim C5 (cell conversion). \<^verbatim>\<open>1.234,56\<close> converts to the float \<open>1234.56\<close>. With any
  runtime tables, a cell that is an em-dash, a hyphen or empty once its bars and the
  white space around it are stripped converts to \<open>Null\<close>; any other cell whose
  standardized form \<^verbatim>\<open>float\<close> rejects converts to the stripped string itself, as
  \<^verbatim>\<open>TE1\<close> does.
\<close>

theorem cell_conversion:
  "clean_and_convert cpython (str ''1.234,56'') = Number (Dec 1234.56) \<and>
   (\<forall>U v. str_strip U (str_replace (str ''|'') [] v) \<in> {[8212], str ''-'', []} \<longrightarrow>
      clean_and_convert U v = Null) \<and>
   (\<forall>U v. str_strip U (str_replace (str ''|'') [] v) \<notin> {[8212], str ''-'', []} \<longrightarrow>
      float_of U (str_replace (str '','') (str ''.'')
        (str_replace (str ''.'') [] (str_strip U (str_replace (str ''|'') [] v)))) = None \<longrightarrow>
      clean_and_convert U v = Text (str_strip U (str_replace (str ''|'') [] v))) \<and>
   clean_and_convert cpython (str ''TE1'') = Text (str ''TE1'')"
proof (intro conjI allI impI)
  show "clean_and_convert cpython (str ''1.234,56'') = Number (Dec 1234.56)"
    by (simp add: cell_eval)
  show "clean_and_convert cpython (str ''TE1'') = Text (str ''TE1'')"
    by (simp add: cell_eval)
next
  fix U v
  assume "str_strip U (str_replace (str ''|'') [] v) \<in> {[8212], str ''-'', []}"
  then show "clean_and_convert U v = Null"
    by (auto simp: clean_and_convert_def cleaned_value_def em_dash_def)
next
  fix U v
  assume "str_strip U (str_replace (str ''|'') [] v) \<notin> {[8212], str ''-'', []}"
    and "float_of U (str_replace (str '','') (str ''.'')
        (str_replace (str ''.'') [] (str_strip U (str_replace (str ''|'') [] v)))) = None"
  then show "clean_and_convert U v = Text (str_strip U (str_replace (str ''|'') [] v))"
    by (simp add: clean_and_convert_def cleaned_value_def em_dash_def standardized_value_def)
qed

text \<open>
  The two general parts at concrete cells: an em-dash, a hyphen between a bar and
  spaces, the empty cell, and a text cell with a bar and a trailing space.
\<close>

theorem cell_conversion_witness:
  "clean_and_convert cpython [8212] = Null \<and>
   clean_and_convert cpython (str '' | - '') = Null \<and>
   clean_and_convert cpython [] = Null \<and>
   clean_and_convert cpython (str ''|te 1 '') = Text (str ''te 1'')"
proof -
  have a: "str_strip cpython (str_replace (str ''|'') [] [8212]) \<in> {[8212], str ''-'', []}"
    by (simp add: cell_eval)
  have b: "str_strip cpython (str_replace (str ''|'') [] (str '' | - ''))
      \<in> {[8212], str ''-'', []}"
    by (simp add: cell_eval)
  have c: "str_strip cpython (str_replace (str ''|'') [] []) \<in> {[8212], str ''-'', []}"
    by (simp add: cell_eval)
  have d: "str_strip cpython (str_replace (str ''|'') [] (str ''|te 1 '')) = str ''te 1''"
    by (simp add: cell_eval)
  have e: "str ''te 1'' \<notin> {[8212], str ''-'', []}"
    by (simp add: cell_eval)
  have f: "float_of cpython (str_replace (str '','') (str ''.'')
        (str_replace (str ''.'') [] (str ''te 1''))) = None"
    by (simp add: cell_eval)
  note cc = cell_conversion
  from cc a have "clean_and_convert cpython [8212] = Null" by blast
  moreover from cc b have "clean_and_convert cpython (str '' | - '') = Null" by blast
  moreover from cc c have "clean_and_convert cpython [] = Null" by blast
  moreover from cc d e f
  have "clean_and_convert cpython (str ''|te 1 '') = Text (str ''te 1'')"
    by (metis (no_types))
  ultimately show ?thesis by simp
qed

subsection \<open>Evaluation on the Latin tables\<close>

lemmas normalize_eval = normalize_text_def strip_accents_def cpython_def nfkd_char_def
  latin1_combining_def latin1_lower_def newlines_def unify_punct_def blank_def str_def
  euro_def

lemmas regex_eval = rx_search_def lit_def spaces0_def spaces1_def potencia_start_rx_def
  potencia_end_rx_def clasica_base_te_def c_euro_kwh_def clasica_base_start_rx_def
  clasica_base_end_rx_def unica_start_rx_def unica_end_rx_def unicode_space_def
  ascii_digit_def euro_def

lemma normalize_plain: "normalize_text cpython (str ''Precio: 3 kW'') = str ''precio: 3 kw''"
  by (simp add: normalize_eval)

subsection \<open>The end-to-end example\<close>

lemma potencia_example_normalized:
  "normalize_text cpython potencia_example = potencia_example_norm"
  by (simp add: potencia_example_def potencia_example_norm_def normalize_eval
      latin1_decomposition_def)

lemma potencia_example_start:
  "rx_search cpython potencia_start_rx potencia_example_norm 0 = Some (0, 32)"
  by (simp add: potencia_example_norm_def regex_eval str_def cpython_def)

lemma potencia_example_end:
  "rx_search cpython potencia_end_rx potencia_example_norm 0 = Some (145, 175)"
  by (simp add: potencia_example_norm_def regex_eval str_def cpython_def)


lemma potencia_example_split:
  "str_split 10 (str_strip cpython (take 145 potencia_example_norm)) =
     potencia_example_lines"
  by (simp add: potencia_example_norm_def potencia_example_lines_def
      potencia_example_data_line_def str_def str_strip_def strip_by_def cpython_def
      unicode_space_def)

lemma potencia_example_header_row:
  "header_row_index cpython (map (normalize_text cpython) potencia_headers)
     potencia_example_lines = Some 1"
  by (simp add: potencia_headers_def normalize_eval header_row_index_def has_headers_def
      potencia_example_lines_def)

lemma potencia_example_data_lines:
  "drop (Suc (Suc 0)) potencia_example_lines = [potencia_example_data_line]"
  by (simp add: potencia_example_lines_def)

lemma potencia_example_row:
  "add_line cpython potencia_headers potencia_example_data_line
     (fold (\<lambda>header. AList.update header []) potencia_headers []) =
   potencia_example_columns"
  by (simp add: add_line_def line_parts_def skipped_def dash_like_def en_dash_def
      add_row_def append_cell_def potencia_headers_def potencia_example_data_line_def
      potencia_example_columns_def cell_eval)

lemma potencia_example_padded:
  "pad_columns potencia_headers potencia_example_columns = potencia_example_columns"
  by (simp add: pad_columns_def max_len_def potencia_headers_def
      potencia_example_columns_def str_def)

lemma potencia_example_parsed:
  "parse_table_to_columns cpython t potencia_example_norm potencia_headers
     potencia_start_rx (Some potencia_end_rx) = potencia_example_columns"
  by (simp add: parse_table_to_columns_def potencia_example_start potencia_example_end
      potencia_example_split potencia_example_header_row potencia_example_data_lines
      potencia_example_row potencia_example_padded Let_def)

lemma potencia_example_rows:
  "columns_to_tarifas potencia_example_columns =
     [\<lparr>tarifa = Text (str ''te1''), potencia_contratada = Number (Dec 345),
       P1 = Number (Dec 0.12), P2 = Number (Dec 0.15), P3 = Number (Dec 0.10),
       P4 = Number (Dec 0.10), P5 = Number (Dec 0.15), P6 = Number (Dec 0.12)\<rparr>]"
  by (simp add: columns_to_tarifas_def max_len_def row_at_def column_at_def
      potencia_example_columns_def str_def)


lemma potencia_example_tarifas:
  "tarifas (tabla_precio_potencia (termino_de_potencia
     (extract_price_tables_from_text cpython potencia_example))) =
   columns_to_tarifas potencia_example_columns"
  by (simp add: extract_price_tables_from_text_def Let_def potencia_example_normalized
      potencia_example_parsed)

text \<open>
  Claim C2, as the code has it. For the text made of the potencia start marker, the
  header line, the data line \<^verbatim>\<open>TE1 | 3.45 | 0,12 | 0,15 | 0,10 | 0,10 | 0,15 | 0,12\<close>
  and the end marker, the result has exactly one row under \<open>tabla_precio_potencia\<close>.
  The row is read from the normalized text and every period is a thousands separator:
  \<open>tarifa\<close> is the lower-case \<^verbatim>\<open>te1\<close>, \<open>potencia_contratada\<close> is \<open>345.0\<close>, and \<open>P1\<close>
  to \<open>P6\<close> are \<open>0.12\<close>, \<open>0.15\<close>, \<open>0.10\<close>, \<open>0.10\<close>, \<open>0.15\<close>, \<open>0.12\<close>.
\<close>

theorem potencia_example_one_row:
  "tarifas (tabla_precio_potencia (termino_de_potencia
     (extract_price_tables_from_text cpython potencia_example))) =
     [\<lparr>tarifa = Text (str ''te1''), potencia_contratada = Number (Dec 345.0),
       P1 = Number (Dec 0.12), P2 = Number (Dec 0.15), P3 = Number (Dec 0.10),
       P4 = Number (Dec 0.10), P5 = Number (Dec 0.15), P6 = Number (Dec 0.12)\<rparr>]"
  by (simp add: potencia_example_tarifas potencia_example_rows)

text \<open>
  Claim C2 as stated fails: the row is not the one with \<open>tarifa\<close> \<^verbatim>\<open>TE1\<close> and
  \<open>potencia_contratada\<close> \<open>3.45\<close>.
\<close>

theorem potencia_example_counterexample:
  "tarifas (tabla_precio_potencia (termino_de_potencia
     (extract_price_tables_from_text cpython potencia_example))) \<noteq>
     [\<lparr>tarifa = Text (str ''TE1''), potencia_contratada = Number (Dec 3.45),
       P1 = Number (Dec 0.12), P2 = Number (Dec 0.15), P3 = Number (Dec 0.10),
       P4 = Number (Dec 0.10), P5 = Number (Dec 0.15), P6 = Number (Dec 0.12)\<rparr>]"
  by (simp add: potencia_example_tarifas potencia_example_rows str_def)


subsection \<open>Missing markers\<close>

text \<open>
  Claim C1. The entry point is a total function of the text: no step of the source
  raises on a string. Each table is extracted on its own: its rows are those of its own
  parse of the normalized text, whatever the markers of the other two tables do, and a
  table whose start marker does not match the normalized text has the empty list of
  rows. So a text in which none of the three markers matches gives three empty lists,
  and a missing marker of one table leaves the rows of the other two as they are.
\<close>

theorem missing_markers_give_empty_tables:
  "(rx_search U potencia_start_rx (normalize_text U text) 0 = None \<longrightarrow>
      tarifas (tabla_precio_potencia (termino_de_potencia
        (extract_price_tables_from_text U text))) = []) \<and>
   (rx_search U clasica_base_start_rx (normalize_text U text) 0 = None \<longrightarrow>
      tarifas (tabla_precio_clasica_base (termino_de_energia
        (extract_price_tables_from_text U text))) = []) \<and>
   (rx_search U unica_start_rx (normalize_text U text) 0 = None \<longrightarrow>
      tarifas (tabla_precio_clasica_unica (termino_de_energia
        (extract_price_tables_from_text U text))) = []) \<and>
   tarifas (tabla_precio_potencia (termino_de_potencia
     (extract_price_tables_from_text U text))) =
     columns_to_tarifas
       (parse_table_to_columns U text (normalize_text U text) potencia_headers
          potencia_start_rx (Some potencia_end_rx)) \<and>
   tarifas (tabla_precio_clasica_base (termino_de_energia
     (extract_price_tables_from_text U text))) =
     columns_to_tarifas
       (parse_table_to_columns U text (normalize_text U text) clasica_base_headers
          clasica_base_start_rx (Some clasica_base_end_rx)) \<and>
   tarifas (tabla_precio_clasica_unica (termino_de_energia
     (extract_price_tables_from_text U text))) =
     columns_to_tarifas (expand_unica_table
       (case finditer U unica_start_rx (normalize_text U text) 0 of
          [] \<Rightarrow> []
        | m # ms \<Rightarrow>
            parse_table_to_columns U text
              (drop (fst (last (m # ms))) (normalize_text U text)) unica_headers
              (Bos # unica_start_rx) (Some unica_end_rx)))"
proof -
  have p: "parse_table_to_columns U t n hs sp ep = []"
    if "rx_search U sp n 0 = None" for t n hs sp ep
    using that by (simp add: parse_table_to_columns_def)
  have u: "unica_data_raw U t n = []" if "rx_search U unica_start_rx n 0 = None" for t n
    using that by (simp add: unica_data_raw_def finditer.simps [of U unica_start_rx n 0])
  have e: "expand_unica_table [] = []"
    by (simp add: expand_unica_table_def)
  have c: "columns_to_tarifas [] = []"
    by (simp add: columns_to_tarifas_def)
  have 1: "tarifas (tabla_precio_potencia (termino_de_potencia
     (extract_price_tables_from_text U text))) =
     columns_to_tarifas
       (parse_table_to_columns U text (normalize_text U text) potencia_headers
          potencia_start_rx (Some potencia_end_rx))"
    by (simp add: extract_price_tables_from_text_def Let_def)
  have 2: "tarifas (tabla_precio_clasica_base (termino_de_energia
     (extract_price_tables_from_text U text))) =
     columns_to_tarifas
       (parse_table_to_columns U text (normalize_text U text) clasica_base_headers
          clasica_base_start_rx (Some clasica_base_end_rx))"
    by (simp add: extract_price_tables_from_text_def Let_def)
  have 3: "tarifas (tabla_precio_clasica_unica (termino_de_energia
     (extract_price_tables_from_text U text))) =
     columns_to_tarifas (expand_unica_table
       (unica_data_raw U text (normalize_text U text)))"
    by (simp add: extract_price_tables_from_text_def Let_def)
  have 4: "unica_data_raw U text (normalize_text U text) =
       (case finditer U unica_start_rx (normalize_text U text) 0 of
          [] \<Rightarrow> []
        | m # ms \<Rightarrow>
            parse_table_to_columns U text
              (drop (fst (last (m # ms))) (normalize_text U text)) unica_headers
              (Bos # unica_start_rx) (Some unica_end_rx))"
    by (simp add: unica_data_raw_def)
  have 5: "rx_search U unica_start_rx (normalize_text U text) 0 = None \<longrightarrow>
      tarifas (tabla_precio_clasica_unica (termino_de_energia
        (extract_price_tables_from_text U text))) = []"
    unfolding 3 by (simp add: u e c)
  have 6: "rx_search U potencia_start_rx (normalize_text U text) 0 = None \<longrightarrow>
      tarifas (tabla_precio_potencia (termino_de_potencia
        (extract_price_tables_from_text U text))) = []"
    unfolding 1 by (simp add: p c)
  have 7: "rx_search U clasica_base_start_rx (normalize_text U text) 0 = None \<longrightarrow>
      tarifas (tabla_precio_clasica_base (termino_de_energia
        (extract_price_tables_from_text U text))) = []"
    unfolding 2 by (simp add: p c)
  from 3 4 have 8: "tarifas (tabla_precio_clasica_unica (termino_de_energia
     (extract_price_tables_from_text U text))) =
     columns_to_tarifas (expand_unica_table
       (case finditer U unica_start_rx (normalize_text U text) 0 of
          [] \<Rightarrow> []
        | m # ms \<Rightarrow>
            parse_table_to_columns U text
              (drop (fst (last (m # ms))) (normalize_text U text)) unica_headers
              (Bos # unica_start_rx) (Some unica_end_rx)))"
    by simp
  from 6 7 5 1 2 8 show ?thesis by (intro conjI)
qed

text \<open>
  A text without any marker has three empty lists; the end-to-end example has the
  potencia marker only, and its potencia row is extracted while the other two lists
  are empty.
\<close>

lemma potencia_example_other_markers:
  "rx_search cpython clasica_base_start_rx potencia_example_norm 0 = None"
  "rx_search cpython unica_start_rx potencia_example_norm 0 = None"
  by (simp_all add: potencia_example_norm_def regex_eval str_def cpython_def)

theorem missing_markers_give_empty_tables_witness:
  "tarifas (tabla_precio_potencia (termino_de_potencia
     (extract_price_tables_from_text cpython (str ''Precio: 3 kW'')))) = [] \<and>
   tarifas (tabla_precio_clasica_base (termino_de_energia
     (extract_price_tables_from_text cpython (str ''Precio: 3 kW'')))) = [] \<and>
   tarifas (tabla_precio_clasica_unica (termino_de_energia
     (extract_price_tables_from_text cpython (str ''Precio: 3 kW'')))) = [] \<and>
   tarifas (tabla_precio_potencia (termino_de_potencia
     (extract_price_tables_from_text cpython potencia_example))) =
     [\<lparr>tarifa = Text (str ''te1''), potencia_contratada = Number (Dec 345.0),
       P1 = Number (Dec 0.12), P2 = Number (Dec 0.15), P3 = Number (Dec 0.10),
       P4 = Number (Dec 0.10), P5 = Number (Dec 0.15), P6 = Number (Dec 0.12)\<rparr>] \<and>
   tarifas (tabla_precio_clasica_base (termino_de_energia
     (extract_price_tables_from_text cpython potencia_example))) = [] \<and>
   tarifas (tabla_precio_clasica_unica (termino_de_energia
     (extract_price_tables_from_text cpython potencia_example))) = []"
proof -
  have a: "rx_search cpython potencia_start_rx
      (normalize_text cpython (str ''Precio: 3 kW'')) 0 = None"
    unfolding normalize_plain by (simp add: regex_eval str_def cpython_def)
  have b: "rx_search cpython clasica_base_start_rx
      (normalize_text cpython (str ''Precio: 3 kW'')) 0 = None"
    unfolding normalize_plain by (simp add: regex_eval str_def cpython_def)
  have c: "rx_search cpython unica_start_rx
      (normalize_text cpython (str ''Precio: 3 kW'')) 0 = None"
    unfolding normalize_plain by (simp add: regex_eval str_def cpython_def)
  note plain = missing_markers_give_empty_tables [of cpython "str ''Precio: 3 kW''"]
  note ex = missing_markers_give_empty_tables [of cpython potencia_example]
  from plain a b c have 1: "tarifas (tabla_precio_potencia (termino_de_potencia
     (extract_price_tables_from_text cpython (str ''Precio: 3 kW'')))) = [] \<and>
   tarifas (tabla_precio_clasica_base (termino_de_energia
     (extract_price_tables_from_text cpython (str ''Precio: 3 kW'')))) = [] \<and>
   tarifas (tabla_precio_clasica_unica (termino_de_energia
     (extract_price_tables_from_text cpython (str ''Precio: 3 kW'')))) = []"
    by blast
  from ex have "tarifas (tabla_precio_potencia (termino_de_potencia
     (extract_price_tables_from_text cpython potencia_example))) =
     columns_to_tarifas
       (parse_table_to_columns cpython potencia_example
          (normalize_text cpython potencia_example) potencia_headers
          potencia_start_rx (Some potencia_end_rx))"
    by blast
  then have 2: "tarifas (tabla_precio_potencia (termino_de_potencia
     (extract_price_tables_from_text cpython potencia_example))) =
     [\<lparr>tarifa = Text (str ''te1''), potencia_contratada = Number (Dec 345.0),
       P1 = Number (Dec 0.12), P2 = Number (Dec 0.15), P3 = Number (Dec 0.10),
       P4 = Number (Dec 0.10), P5 = Number (Dec 0.15), P6 = Number (Dec 0.12)\<rparr>]"
    by (simp add: potencia_example_normalized potencia_example_parsed
        potencia_example_rows)
  from ex potencia_example_other_markers
  have 3: "tarifas (tabla_precio_clasica_base (termino_de_energia
     (extract_price_tables_from_text cpython potencia_example))) = [] \<and>
   tarifas (tabla_precio_clasica_unica (termino_de_energia
     (extract_price_tables_from_text cpython potencia_example))) = []"
    unfolding potencia_example_normalized by blast
  from 1 2 3 show ?thesis by blast
qed

subsection \<open>Rectangular tables\<close>

lemma fold_invariant:
  assumes "P a" and "\<And>x b. x \<in> set xs \<Longrightarrow> P b \<Longrightarrow> P (f x b)"
  shows "P (fold f xs a)"
  using assms by (induction xs arbitrary: a) auto

lemma set_map_entry:
  "distinct (map fst al) \<Longrightarrow>
   set (AList.map_entry k f al) = (\<lambda>(k', v). (k', if k' = k then f v else v)) ` set al"
proof (induction al)
  case Nil
  show ?case by simp
next
  case (Cons p ps)
  show ?case
  proof (cases "fst p = k")
    case True
    with Cons.prems have "k \<notin> fst ` set ps" by auto
    then have "(\<lambda>(k', v). (k', if k' = k then f v else v)) ` set ps = set ps"
      by (force simp: image_iff)
    with True show ?thesis by (cases p) auto
  next
    case False
    with Cons show ?thesis by (cases p) auto
  qed
qed

lemma keys_init_columns:
  "distinct (map fst al) \<Longrightarrow>
   distinct (map fst (fold (\<lambda>header. AList.update header []) hs al)) \<and>
   fst ` set (fold (\<lambda>header. AList.update header []) hs al) = set hs \<union> fst ` set al"
  by (induction hs arbitrary: al) (auto simp: distinct_update dom_update)

lemma keys_append_cell:
  "distinct (map fst al) \<and> fst ` set al = K \<Longrightarrow>
   distinct (map fst (append_cell h c al)) \<and> fst ` set (append_cell h c al) = K"
  by (simp add: append_cell_def distinct_map_entry dom_map_entry)

lemma keys_add_row:
  assumes "distinct (map fst al) \<and> fst ` set al = K"
  shows "distinct (map fst (add_row U hs parts al)) \<and>
    fst ` set (add_row U hs parts al) = K"
  unfolding add_row_def
proof (rule fold_invariant [where P = "\<lambda>b. distinct (map fst b) \<and> fst ` set b = K"])
  show "distinct (map fst al) \<and> fst ` set al = K" by (rule assms)
next
  fix x :: "nat \<times> ustr" and b :: table
  assume "distinct (map fst b) \<and> fst ` set b = K"
  then show "distinct (map fst ((case x of (idx, header) \<Rightarrow>
        append_cell header
          (if idx < length parts then clean_and_convert U (parts ! idx) else Null)) b)) \<and>
      fst ` set ((case x of (idx, header) \<Rightarrow>
        append_cell header
          (if idx < length parts then clean_and_convert U (parts ! idx) else Null)) b) = K"
    by (cases x) (simp add: keys_append_cell)
qed

lemma keys_add_line:
  "distinct (map fst al) \<and> fst ` set al = K \<Longrightarrow>
   distinct (map fst (add_line U hs line al)) \<and> fst ` set (add_line U hs line al) = K"
  using keys_add_row [of al K U hs] by (simp add: add_line_def Let_def)

lemma keys_data_lines:
  "distinct (map fst (fold (add_line U hs) ls
     (fold (\<lambda>header. AList.update header []) hs []))) \<and>
   fst ` set (fold (add_line U hs) ls
     (fold (\<lambda>header. AList.update header []) hs [])) = set hs"
proof (rule fold_invariant [where P = "\<lambda>b. distinct (map fst b) \<and> fst ` set b = set hs"])
  show "distinct (map fst
        (fold (\<lambda>header. AList.update header []) hs ([]::table))) \<and>
      fst ` set (fold (\<lambda>header. AList.update header []) hs ([]::table)) = set hs"
    using keys_init_columns [where al = "[]::table" and hs = hs] by simp
next
  fix x and b :: table
  assume "distinct (map fst b) \<and> fst ` set b = set hs"
  then show "distinct (map fst (add_line U hs x b)) \<and>
      fst ` set (add_line U hs x b) = set hs"
    by (rule keys_add_line)
qed

lemma set_padded:
  "distinct (map fst al) \<Longrightarrow>
   set (fold (\<lambda>header. AList.map_entry header
               (\<lambda>vs. vs @ replicate (m - length vs) Null)) hs al) =
   (\<lambda>(k, v). (k, if k \<in> set hs then v @ replicate (m - length v) Null else v)) ` set al"
proof (induction hs arbitrary: al)
  case Nil
  show ?case by simp
next
  case (Cons h hs)
  let ?pad = "\<lambda>vs. vs @ replicate (m - length vs) Null"
  have d: "distinct (map fst (AList.map_entry h ?pad al))"
    using Cons.prems by (rule distinct_map_entry)
  have "set (fold (\<lambda>header. AList.map_entry header ?pad) (h # hs) al) =
      (\<lambda>(k, v). (k, if k \<in> set hs then ?pad v else v)) `
        ((\<lambda>(k', v). (k', if k' = h then ?pad v else v)) ` set al)"
    using Cons.IH [OF d] set_map_entry [OF Cons.prems, of h ?pad] by simp
  also have "\<dots> = (\<lambda>(k, v). (k, if k \<in> set (h # hs) then ?pad v else v)) ` set al"
    unfolding image_image by (rule image_cong) auto
  finally show ?case .
qed

lemma length_le_max_len: "(k, v) \<in> set columns \<Longrightarrow> length v \<le> max_len columns"
proof -
  assume "(k, v) \<in> set columns"
  then have "length v \<in> insert 0 (set (map (length \<circ> snd) columns))"
    by force
  then show ?thesis
    unfolding max_len_Max by (intro Max_ge) auto
qed

lemma length_padded:
  assumes "distinct (map fst al)" and "fst ` set al \<subseteq> set hs"
    and "c \<in> set (pad_columns hs al)"
  shows "length (snd c) = max_len al"
proof (cases "al = []")
  case True
  with assms(3) show ?thesis by (simp add: pad_columns_def)
next
  case False
  with assms(3) set_padded [OF assms(1), of "max_len al" hs]
  obtain k v where kv: "(k, v) \<in> set al"
    and c: "c = (k, if k \<in> set hs then v @ replicate (max_len al - length v) Null else v)"
    by (auto simp: pad_columns_def)
  from kv assms(2) have "k \<in> set hs" by force
  with c length_le_max_len [OF kv] show ?thesis by simp
qed

lemma parse_table_shape:
  "parse_table_to_columns U orig_text norm_text headers sp ep = [] \<or>
   (\<exists>ls. parse_table_to_columns U orig_text norm_text headers sp ep =
      pad_columns headers
        (fold (add_line U headers) ls
           (fold (\<lambda>header. AList.update header []) headers [])))"
  unfolding parse_table_to_columns_def Let_def
  by (auto split: option.split prod.split)

lemma parse_table_located:
  "parse_table_to_columns U orig_text norm_text headers sp ep =
     (case located_data_lines U norm_text headers sp ep of
        None \<Rightarrow> []
      | Some ls \<Rightarrow>
          pad_columns headers
            (fold (add_line U headers) ls
               (fold (\<lambda>header. AList.update header []) headers [])))"
  unfolding parse_table_to_columns_def located_data_lines_def Let_def
  by (simp split: option.split prod.split)

lemma map_of_append_cell:
  "map_of (append_cell x c cols) h =
     (if h = x then map_option (\<lambda>v. v @ [c]) (map_of cols x) else map_of cols h)"
  by (cases "map_of cols x") (simp_all add: append_cell_def map_of_map_entry)

lemma map_of_add_row_from:
  "map_of (fold (\<lambda>(idx, header). append_cell header (cell_at U parts idx))
             (enumerate n hs) cols) h =
   map_option
     (\<lambda>v. v @ map (\<lambda>(j, k). cell_at U parts j)
                 (filter (\<lambda>(j, k). k = h) (enumerate n hs)))
     (map_of cols h)"
proof (induction hs arbitrary: n cols)
  case Nil
  show ?case by (cases "map_of cols h") simp_all
next
  case (Cons x xs)
  show ?case
    by (cases "map_of cols h") (auto simp: Cons.IH map_of_append_cell)
qed

lemma map_of_add_row:
  "map_of (add_row U hs parts cols) h =
   map_option (\<lambda>v. v @ line_cells U hs h parts) (map_of cols h)"
  using map_of_add_row_from [of U parts 0 hs cols h]
  by (simp add: add_row_def line_cells_def cell_at_def)

lemma map_of_add_line:
  "map_of (add_line U hs line cols) h =
   map_option
     (\<lambda>v. v @ (if skipped (line_parts U line) then []
               else line_cells U hs h (line_parts U line)))
     (map_of cols h)"
  by (cases "map_of cols h") (simp_all add: add_line_def Let_def map_of_add_row)

lemma map_of_add_lines:
  "map_of (fold (add_line U hs) ls cols) h =
   map_option (\<lambda>v. v @ column_rows U hs (kept_parts U ls) h) (map_of cols h)"
proof (induction ls arbitrary: cols)
  case Nil
  show ?case by (cases "map_of cols h") (simp_all add: column_rows_def kept_parts_def)
next
  case (Cons l ls)
  show ?case
    by (cases "map_of cols h")
       (simp_all add: Cons.IH map_of_add_line column_rows_def kept_parts_def)
qed

lemma map_of_init_columns:
  "map_of (fold (\<lambda>header. AList.update header []) hs al) h =
     (if h \<in> set hs then Some [] else map_of al h)"
  by (induction hs arbitrary: al) (simp_all add: update_conv')

lemma map_of_data_columns:
  "h \<in> set hs \<Longrightarrow>
   map_of (fold (add_line U hs) ls (fold (\<lambda>header. AList.update header []) hs [])) h =
     Some (column_rows U hs (kept_parts U ls) h)"
  by (simp add: map_of_add_lines map_of_init_columns)


lemma map_of_padded:
  "map_of (fold (\<lambda>header. AList.map_entry header
                   (\<lambda>vs. vs @ replicate (m - length vs) Null)) hs al) k =
     (if k \<in> set hs
      then map_option (\<lambda>vs. vs @ replicate (m - length vs) Null) (map_of al k)
      else map_of al k)"
proof (induction hs arbitrary: al)
  case Nil
  show ?case by simp
next
  case (Cons h hs)
  show ?case
    by (cases "map_of al h"; cases "map_of al k")
       (auto simp: Cons.IH map_of_map_entry)
qed

lemma keys_pad_columns:
  assumes "distinct (map fst al)"
  shows "distinct (map fst (pad_columns hs al)) \<and>
    fst ` set (pad_columns hs al) = fst ` set al"
proof (cases "al = []")
  case True
  then show ?thesis by (simp add: pad_columns_def)
next
  case False
  have "distinct (map fst (fold (\<lambda>header. AList.map_entry header
      (\<lambda>vs. vs @ replicate (max_len al - length vs) Null)) hs al)) \<and>
    fst ` set (fold (\<lambda>header. AList.map_entry header
      (\<lambda>vs. vs @ replicate (max_len al - length vs) Null)) hs al) = fst ` set al"
  proof (rule fold_invariant
      [where P = "\<lambda>b. distinct (map fst b) \<and> fst ` set b = fst ` set al"])
    show "distinct (map fst al) \<and> fst ` set al = fst ` set al"
      using assms by simp
  next
    fix x :: ustr and b :: table
    assume "distinct (map fst b) \<and> fst ` set b = fst ` set al"
    then show "distinct (map fst (AList.map_entry x
        (\<lambda>vs. vs @ replicate (max_len al - length vs) Null) b)) \<and>
      fst ` set (AList.map_entry x
        (\<lambda>vs. vs @ replicate (max_len al - length vs) Null) b) = fst ` set al"
      by (simp add: distinct_map_entry dom_map_entry)
  qed
  with False show ?thesis by (simp add: pad_columns_def)
qed

lemma fold_max_Max:
  "fold (\<lambda>h m. max m (f h)) hs a = Max (insert a (f ` set hs))"
proof (induction hs arbitrary: a)
  case Nil
  show ?case by simp
next
  case (Cons h hs)
  have "Max (insert (max a (f h)) (f ` set hs)) =
      Max (insert a (insert (f h) (f ` set hs)))"
    by (cases "hs = []") (simp_all add: max.assoc Max_insert max.left_commute)
  with Cons.IH [of "max a (f h)"] show ?case by simp
qed

lemma longest_column_Max:
  "longest_column U hs kept =
     Max (insert 0 ((\<lambda>h. length (column_rows U hs kept h)) ` set hs))"
  by (simp add: longest_column_def fold_max_Max)

lemma max_len_data_columns:
  assumes d: "distinct (map fst cols)" and k: "fst ` set cols = set hs"
    and g: "\<And>h. h \<in> set hs \<Longrightarrow> map_of cols h = Some (g h)"
  shows "max_len cols = Max (insert 0 ((\<lambda>h. length (g h)) ` set hs))"
proof -
  have "set (map (length \<circ> snd) cols) = (\<lambda>h. length (g h)) ` set hs"
  proof (intro equalityI subsetI)
    fix n assume "n \<in> set (map (length \<circ> snd) cols)"
    then obtain h v where hv: "(h, v) \<in> set cols" and n: "n = length v" by auto
    from hv k have h: "h \<in> set hs" by force
    from hv d have "map_of cols h = Some v" by simp
    with g [OF h] n h show "n \<in> (\<lambda>h. length (g h)) ` set hs" by auto
  next
    fix n assume "n \<in> (\<lambda>h. length (g h)) ` set hs"
    then obtain h where h: "h \<in> set hs" and n: "n = length (g h)" by auto
    from g [OF h] have "(h, g h) \<in> set cols" by (rule map_of_SomeD)
    with n show "n \<in> set (map (length \<circ> snd) cols)" by force
  qed
  then show ?thesis by (simp only: max_len_Max)
qed

lemma filter_enumerate_absent:
  "k \<notin> set xs \<Longrightarrow> filter (\<lambda>(i, k'). k' = k) (enumerate n xs) = []"
  by (induction xs arbitrary: n) auto

lemma filter_enumerate_distinct:
  "distinct hs \<Longrightarrow> j < length hs \<Longrightarrow>
   filter (\<lambda>(i, k). k = hs ! j) (enumerate n hs) = [(n + j, hs ! j)]"
proof (induction hs arbitrary: n j)
  case Nil
  then show ?case by simp
next
  case (Cons x xs)
  show ?case
  proof (cases j)
    case 0
    with Cons.prems show ?thesis by (simp add: filter_enumerate_absent)
  next
    case (Suc j')
    with Cons.prems have "j' < length xs" "distinct xs" "x \<noteq> xs ! j'" by auto
    with Cons.IH [of j' "Suc n"] Suc show ?thesis by simp
  qed
qed

lemma column_rows_distinct:
  "distinct hs \<Longrightarrow> j < length hs \<Longrightarrow>
   column_rows U hs kept (hs ! j) = map (\<lambda>parts. cell_at U parts j) kept"
  using filter_enumerate_distinct [of hs j 0]
  by (induction kept) (simp_all add: column_rows_def line_cells_def)

lemma longest_column_distinct:
  assumes "distinct hs" and "hs \<noteq> []"
  shows "longest_column U hs kept = length kept"
proof -
  have len: "length (column_rows U hs kept h) = length kept" if "h \<in> set hs" for h
  proof -
    from that obtain j where "j < length hs" "h = hs ! j" by (auto simp: in_set_conv_nth)
    with column_rows_distinct [OF assms(1), of j U kept] show ?thesis by simp
  qed
  from assms(2) obtain x where x: "x \<in> set hs" by (cases hs) auto
  have "(\<lambda>h. length (column_rows U hs kept h)) ` set hs =
      (\<lambda>h. length kept) ` set hs"
    by (rule image_cong) (simp_all add: len)
  also from x have "\<dots> = {length kept}" by (rule image_constant)
  finally show ?thesis by (simp add: longest_column_Max)
qed

text \<open>
  Claim C9 (rectangularity). For every region, every header list and every pair of
  patterns, all the columns of the table returned by \<open>parse_table_to_columns\<close> have the
  same length. The table is empty when the locator finds no data lines; otherwise its
  keys are the headers, and the column of a header is made of the cells that the kept
  lines give to it, in order, right-padded with \<open>Null\<close> to the length of the longest
  column. A line gives to the header at position \<open>j\<close> its converted fragment \<open>j\<close>, and
  \<open>Null\<close> when it has fewer fragments: with headers that are all different, as in the
  three tables of the module, the column of header \<open>j\<close> is exactly that cell for each
  kept line.
\<close>

theorem rectangular_columns:
  "(\<forall>c1\<in>set (parse_table_to_columns U orig_text norm_text headers sp ep).
      \<forall>c2\<in>set (parse_table_to_columns U orig_text norm_text headers sp ep).
        length (snd c1) = length (snd c2)) \<and>
   (located_data_lines U norm_text headers sp ep = None \<longrightarrow>
      parse_table_to_columns U orig_text norm_text headers sp ep = []) \<and>
   (\<forall>ls. located_data_lines U norm_text headers sp ep = Some ls \<longrightarrow>
      distinct (map fst (parse_table_to_columns U orig_text norm_text headers sp ep)) \<and>
      set (map fst (parse_table_to_columns U orig_text norm_text headers sp ep)) =
        set headers \<and>
      (\<forall>h\<in>set headers.
         map_of (parse_table_to_columns U orig_text norm_text headers sp ep) h =
           Some (column_rows U headers (kept_parts U ls) h @
                 replicate (longest_column U headers (kept_parts U ls) -
                            length (column_rows U headers (kept_parts U ls) h)) Null)) \<and>
      (distinct headers \<longrightarrow>
         (\<forall>j<length headers.
            map_of (parse_table_to_columns U orig_text norm_text headers sp ep)
              (headers ! j) =
              Some (map (\<lambda>parts. cell_at U parts j) (kept_parts U ls)))))"
proof (intro conjI allI impI)
  show "\<forall>c1\<in>set (parse_table_to_columns U orig_text norm_text headers sp ep).
      \<forall>c2\<in>set (parse_table_to_columns U orig_text norm_text headers sp ep).
        length (snd c1) = length (snd c2)"
  proof -
    from parse_table_shape [of U orig_text norm_text headers sp ep]
    consider "parse_table_to_columns U orig_text norm_text headers sp ep = []"
      | ls where "parse_table_to_columns U orig_text norm_text headers sp ep =
        pad_columns headers
          (fold (add_line U headers) ls
             (fold (\<lambda>header. AList.update header []) headers []))"
      by blast
    then show ?thesis
    proof cases
      case 1
      then show ?thesis by simp
    next
      case (2 ls)
      let ?cols = "fold (add_line U headers) ls
          (fold (\<lambda>header. AList.update header []) headers [])"
      from keys_data_lines [of U headers ls]
      have d: "distinct (map fst ?cols)" and k: "fst ` set ?cols \<subseteq> set headers"
        by simp_all
      have "length (snd c) = max_len ?cols"
        if "c \<in> set (pad_columns headers ?cols)" for c
        using d k that by (rule length_padded)
      then show ?thesis unfolding 2 by simp
    qed
  qed
next
  assume "located_data_lines U norm_text headers sp ep = None"
  then show "parse_table_to_columns U orig_text norm_text headers sp ep = []"
    by (simp add: parse_table_located)
next
  fix ls
  assume ls: "located_data_lines U norm_text headers sp ep = Some ls"
  let ?kept = "kept_parts U ls"
  let ?cols = "fold (add_line U headers) ls
      (fold (\<lambda>header. AList.update header []) headers [])"
  let ?P = "parse_table_to_columns U orig_text norm_text headers sp ep"
  from ls have P: "?P = pad_columns headers ?cols"
    by (simp add: parse_table_located)
  from keys_data_lines [of U headers ls]
  have d: "distinct (map fst ?cols)" and k: "fst ` set ?cols = set headers"
    by simp_all
  from keys_pad_columns [OF d, of headers] k
  show "distinct (map fst ?P)" and "set (map fst ?P) = set headers"
    unfolding P by simp_all
  have m: "max_len ?cols = longest_column U headers ?kept"
    unfolding longest_column_Max
    by (rule max_len_data_columns [OF d k]) (rule map_of_data_columns)
  have col: "map_of ?P h =
      Some (column_rows U headers ?kept h @
            replicate (longest_column U headers ?kept -
                       length (column_rows U headers ?kept h)) Null)"
    if h: "h \<in> set headers" for h
  proof -
    from h k have "?cols \<noteq> []" by auto
    with h show ?thesis
      unfolding P
      by (simp add: pad_columns_def map_of_padded map_of_data_columns m)
  qed
  then show "\<forall>h\<in>set headers. map_of ?P h =
      Some (column_rows U headers ?kept h @
            replicate (longest_column U headers ?kept -
                       length (column_rows U headers ?kept h)) Null)"
    by blast
  show "map_of ?P (headers ! j) = Some (map (\<lambda>parts. cell_at U parts j) ?kept)"
    if dh: "distinct headers" and j: "j < length headers" for j
  proof -
    from j have h: "headers ! j \<in> set headers" and ne: "headers \<noteq> []" by auto
    from col [OF h] column_rows_distinct [OF dh j, of U ?kept]
      longest_column_distinct [OF dh ne, of U ?kept]
    show ?thesis by simp
  qed
qed

lemma ragged_example_located:
  "located_data_lines cpython ragged_example potencia_headers potencia_start_rx
     (Some potencia_end_rx) = Some [str ''te1 | 1'', str ''te2 | 2 | 0,5'']"
proof -
  have s: "rx_search cpython potencia_start_rx ragged_example 0 = Some (0, 32)"
    by (simp add: ragged_example_def regex_eval str_def cpython_def)
  have e: "rx_search cpython potencia_end_rx ragged_example 0 = None"
    by (simp add: ragged_example_def regex_eval str_def cpython_def)
  have l: "str_split 10 (str_strip cpython ragged_example) = ragged_example_lines"
    by (simp add: ragged_example_def ragged_example_lines_def str_def str_strip_def
        strip_by_def cpython_def unicode_space_def)
  have h: "header_row_index cpython (map (normalize_text cpython) potencia_headers)
      ragged_example_lines = Some 1"
    by (simp add: potencia_headers_def normalize_eval header_row_index_def has_headers_def
        ragged_example_lines_def)
  show ?thesis
    by (simp add: located_data_lines_def s e l h Let_def) (simp add: ragged_example_lines_def)
qed

lemma ragged_example_kept:
  "kept_parts cpython [str ''te1 | 1'', str ''te2 | 2 | 0,5''] =
     [[str ''te1'', str ''1''], [str ''te2'', str ''2'', str ''0,5'']]"
  by (simp add: kept_parts_def line_parts_def skipped_def dash_like_def en_dash_def
      em_dash_def str_def str_strip_def strip_by_def cpython_def unicode_space_def)

lemma repeated_example_located:
  "located_data_lines cpython repeated_example repeated_headers (lit ''m'') None =
     Some [str ''1 | 2 | x'', str ''3'']"
proof -
  have s: "rx_search cpython (lit ''m'') repeated_example 0 = Some (0, 1)"
    by (simp add: repeated_example_def rx_search_def lit_def str_def)
  have l: "str_split 10 (str_strip cpython repeated_example) =
      [str ''m'', str ''a b'', str ''1 | 2 | x'', str ''3'']"
    by (simp add: repeated_example_def str_def str_strip_def strip_by_def cpython_def
        unicode_space_def)
  have h: "header_row_index cpython (map (normalize_text cpython) repeated_headers)
      [str ''m'', str ''a b'', str ''1 | 2 | x'', str ''3''] = Some 1"
    by (simp add: repeated_headers_def normalize_eval header_row_index_def has_headers_def)
  show ?thesis
    by (simp add: located_data_lines_def s l h Let_def)
qed

lemma repeated_example_kept:
  "kept_parts cpython [str ''1 | 2 | x'', str ''3''] =
     [[str ''1'', str ''2'', str ''x''], [str ''3'']]"
  by (simp add: kept_parts_def line_parts_def skipped_def dash_like_def en_dash_def
      em_dash_def str_def str_strip_def strip_by_def cpython_def unicode_space_def)

theorem rectangular_columns_witness:
  "map_of (parse_table_to_columns cpython ragged_example ragged_example potencia_headers
      potencia_start_rx (Some potencia_end_rx)) (str ''TARIFA'') =
     Some [Text (str ''te1''), Text (str ''te2'')] \<and>
   map_of (parse_table_to_columns cpython ragged_example ragged_example potencia_headers
      potencia_start_rx (Some potencia_end_rx)) (str ''P1'') =
     Some [Null, Number (Dec 0.5)] \<and>
   map_of (parse_table_to_columns cpython ragged_example ragged_example potencia_headers
      potencia_start_rx (Some potencia_end_rx)) (str ''P6'') =
     Some [Null, Null] \<and>
   map_of (parse_table_to_columns cpython repeated_example repeated_example
      repeated_headers (lit ''m'') None) (str ''a'') =
     Some [Number (Dec 1), Number (Dec 2), Number (Dec 3), Null] \<and>
   map_of (parse_table_to_columns cpython repeated_example repeated_example
      repeated_headers (lit ''m'') None) (str ''b'') =
     Some [Text (str ''x''), Null, Null, Null] \<and>
   length (snd (hd (parse_table_to_columns cpython repeated_example repeated_example
      repeated_headers (lit ''m'') None))) =
   length (snd (last (parse_table_to_columns cpython repeated_example repeated_example
      repeated_headers (lit ''m'') None))) \<and>
   parse_table_to_columns cpython (str ''a b'') (str ''a b'') repeated_headers
      (lit ''m'') None = []"
proof -
  have "located_data_lines cpython (str ''a b'') repeated_headers (lit ''m'') None = None"
    by (simp add: located_data_lines_def rx_search_def lit_def str_def)
  with rectangular_columns [of cpython "str ''a b''" "str ''a b''" repeated_headers
      "lit ''m''" None]
  have 7: "parse_table_to_columns cpython (str ''a b'') (str ''a b'') repeated_headers
      (lit ''m'') None = []"
    by blast
  let ?P = "parse_table_to_columns cpython ragged_example ragged_example potencia_headers
      potencia_start_rx (Some potencia_end_rx)"
  let ?Q = "parse_table_to_columns cpython repeated_example repeated_example
      repeated_headers (lit ''m'') None"
  note p = rectangular_columns [of cpython ragged_example ragged_example potencia_headers
      potencia_start_rx "Some potencia_end_rx"]
  note q = rectangular_columns [of cpython repeated_example repeated_example
      repeated_headers "lit ''m''" None]
  have d: "distinct potencia_headers"
    by (simp add: potencia_headers_def str_def)
  from p ragged_example_located d
  have pj: "\<forall>j<length potencia_headers. map_of ?P (potencia_headers ! j) =
      Some (map (\<lambda>parts. cell_at cpython parts j)
        (kept_parts cpython [str ''te1 | 1'', str ''te2 | 2 | 0,5'']))"
    by blast
  from pj [rule_format, of 0] have 1: "map_of ?P (str ''TARIFA'') =
     Some [Text (str ''te1''), Text (str ''te2'')]"
    unfolding ragged_example_kept
    by (simp add: potencia_headers_def cell_at_def cell_eval)
  from pj [rule_format, of 2] have 2: "map_of ?P (str ''P1'') =
     Some [Null, Number (Dec 0.5)]"
    unfolding ragged_example_kept
    by (simp add: potencia_headers_def cell_at_def cell_eval)
  from pj [rule_format, of 7] have 3: "map_of ?P (str ''P6'') = Some [Null, Null]"
    unfolding ragged_example_kept
    by (simp add: potencia_headers_def cell_at_def cell_eval)
  from q repeated_example_located
  have qh: "\<forall>h\<in>set repeated_headers. map_of ?Q h =
      Some (column_rows cpython repeated_headers
              (kept_parts cpython [str ''1 | 2 | x'', str ''3'']) h @
            replicate (longest_column cpython repeated_headers
                (kept_parts cpython [str ''1 | 2 | x'', str ''3'']) -
              length (column_rows cpython repeated_headers
                (kept_parts cpython [str ''1 | 2 | x'', str ''3'']) h)) Null)"
    and keys: "set (map fst ?Q) = set repeated_headers"
    by blast+
  from qh [rule_format, of "str ''a''"] have 4: "map_of ?Q (str ''a'') =
     Some [Number (Dec 1), Number (Dec 2), Number (Dec 3), Null]"
    unfolding repeated_example_kept
    by (simp add: repeated_headers_def longest_column_def column_rows_def line_cells_def
        cell_at_def cell_eval)
  from qh [rule_format, of "str ''b''"] have 5: "map_of ?Q (str ''b'') =
     Some [Text (str ''x''), Null, Null, Null]"
    unfolding repeated_example_kept
    by (simp add: repeated_headers_def longest_column_def column_rows_def line_cells_def
        cell_at_def cell_eval)
  from keys have "?Q \<noteq> []"
    by (auto simp: repeated_headers_def)
  then have "hd ?Q \<in> set ?Q" "last ?Q \<in> set ?Q" by simp_all
  with q have 6: "length (snd (hd ?Q)) = length (snd (last ?Q))" by blast
  from 1 2 3 4 5 6 7 show ?thesis by (intro conjI)
qed

subsection \<open>The normalizer applied twice\<close>

text \<open>
  Claim C4 (idempotence of the normalizer) at the text \<^verbatim>\<open>k  w\<close>, a \<open>k\<close> and a \<open>w\<close>
  with two spaces between them. The replacement of \<^verbatim>\<open>k w\<close> by \<^verbatim>\<open>kw\<close> runs before
  the runs of blanks are collapsed, so the first pass leaves \<^verbatim>\<open>k w\<close> and only the
  second pass reaches \<^verbatim>\<open>kw\<close>: the second application changes the text.
\<close>

theorem normalize_twice_differs:
  "normalize_text cpython (str ''k  w'') = str ''k w'' \<and>
   normalize_text cpython (normalize_text cpython (str ''k  w'')) = str ''kw''"
proof -
  have 1: "normalize_text cpython (str ''k  w'') = str ''k w''"
    by (simp add: normalize_eval)
  have 2: "normalize_text cpython (str ''k w'') = str ''kw''"
    by (simp add: normalize_eval)
  from 1 2 show ?thesis by simp
qed

subsection \<open>The last occurrence of the unica marker\<close>

lemma rx_scan_bounds:
  "rx_scan U r k t = Some (a, b) \<Longrightarrow> k \<le> a \<and> a \<le> b \<and> b \<le> k + length t"
proof (induction t arbitrary: k)
  case Nil
  then show ?case by (auto split: option.splits)
next
  case (Cons x xs)
  show ?case
  proof (cases "rx_match U r (k = 0) (x # xs)")
    case None
    with Cons.prems have "rx_scan U r (Suc k) xs = Some (a, b)" by simp
    from Cons.IH [OF this] show ?thesis by simp
  next
    case (Some rest)
    with Cons.prems show ?thesis by auto
  qed
qed

lemma rx_search_bounds:
  "rx_search U r s pos = Some (i, e) \<Longrightarrow> pos \<le> i \<and> i \<le> e \<and> e \<le> length s"
  using rx_scan_bounds [of U r pos "drop pos s" i e]
  by (auto simp: rx_search_def split: if_splits)

lemma finditer_lower:
  "m \<in> set (finditer U r s pos) \<Longrightarrow> pos \<le> fst m"
proof (induction U r s pos rule: finditer.induct)
  case (1 U r s pos)
  show ?case
  proof (cases "rx_search U r s pos")
    case None
    with "1.prems" show ?thesis by (simp add: finditer.simps [of U r s pos])
  next
    case (Some a)
    obtain i e where a: "a = (i, e)" by (cases a)
    from Some a rx_search_bounds have b: "pos \<le> i" "i \<le> e" by blast+
    from "1.prems" Some a
    consider "m = (i, e)" | "m \<in> set (finditer U r s (if i < e then e else Suc e))"
      by (auto simp: finditer.simps [of U r s pos])
    then show ?thesis
    proof cases
      case 1
      with b show ?thesis by simp
    next
      case 2
      from "1.IH" [OF Some a [symmetric] 2] b show ?thesis
        by (auto split: if_splits)
    qed
  qed
qed

lemma finditer_increasing:
  "sorted_wrt (<) (map fst (finditer U r s pos))"
proof (induction U r s pos rule: finditer.induct)
  case (1 U r s pos)
  show ?case
  proof (cases "rx_search U r s pos")
    case None
    then show ?thesis by (simp add: finditer.simps [of U r s pos])
  next
    case (Some a)
    obtain i e where a: "a = (i, e)" by (cases a)
    from Some a rx_search_bounds have b: "i \<le> e" by blast
    have "i < fst m" if "m \<in> set (finditer U r s (if i < e then e else Suc e))" for m
      using finditer_lower [OF that] b by (auto split: if_splits)
    with "1.IH" [OF Some a [symmetric]] Some a show ?thesis
      by (auto simp: finditer.simps [of U r s pos])
  qed
qed

lemma last_is_greatest:
  assumes "sorted_wrt (<) (map f xs)" and "x \<in> set (butlast xs)"
  shows "f x < f (last xs)"
proof -
  from assms(2) have ne: "xs \<noteq> []" by auto
  then have "xs = butlast xs @ [last xs]" by simp
  then have "sorted_wrt (<) (map f (butlast xs) @ [f (last xs)])"
    using assms(1) by (metis list.simps(8,9) map_append)
  with assms(2) show ?thesis
    by (auto simp: sorted_wrt_append)
qed

text \<open>
  Claim C6 (last occurrence). When the unica start marker matches at two or more
  places of the normalized text, every earlier match starts before the last one, and
  the rows of \<open>tabla_precio_clasica_unica\<close> are those parsed from the part of the
  normalized text that starts at the last match: nothing before it is read.
\<close>

theorem unica_last_occurrence:
  assumes "finditer U unica_start_rx (normalize_text U text) 0 = ms" and "2 \<le> length ms"
  shows "(\<forall>m\<in>set (butlast ms). fst m < fst (last ms)) \<and>
    tarifas (tabla_precio_clasica_unica (termino_de_energia
      (extract_price_tables_from_text U text))) =
    columns_to_tarifas (expand_unica_table
      (parse_table_to_columns U text (drop (fst (last ms)) (normalize_text U text))
         unica_headers (Bos # unica_start_rx) (Some unica_end_rx)))"
proof -
  from assms(2) obtain m ms' where ms: "ms = m # ms'" by (cases ms) auto
  from finditer_increasing [of U unica_start_rx "normalize_text U text" 0] assms(1)
  have "sorted_wrt (<) (map fst ms)" by simp
  then have "\<forall>m\<in>set (butlast ms). fst m < fst (last ms)"
    using last_is_greatest [of fst ms] by blast
  moreover have "unica_data_raw U text (normalize_text U text) =
      parse_table_to_columns U text (drop (fst (last ms)) (normalize_text U text))
         unica_headers (Bos # unica_start_rx) (Some unica_end_rx)"
    using assms(1) ms by (simp add: unica_data_raw_def)
  ultimately show ?thesis
    by (simp add: extract_price_tables_from_text_def Let_def)
qed



lemma unica_example_normalized: "normalize_text cpython unica_example = unica_example"
  by (simp add: unica_example_def unica_example_tail_def normalize_eval)

lemma unica_example_searches:
  "rx_search cpython unica_start_rx unica_example 0 = Some (0, 38)"
  "rx_search cpython unica_start_rx unica_example 38 = Some (92, 130)"
  "rx_search cpython unica_start_rx unica_example 130 = None"
  by (simp_all add: unica_example_def unica_example_tail_def regex_eval str_def cpython_def)

lemma unica_example_matches:
  "finditer cpython unica_start_rx unica_example 0 = [(0, 38), (92, 130)]"
  by (simp add: finditer.simps [of cpython unica_start_rx unica_example 0]
      finditer.simps [of cpython unica_start_rx unica_example 38]
      finditer.simps [of cpython unica_start_rx unica_example 130]
      unica_example_searches)

lemma unica_example_slice: "drop 92 unica_example = unica_example_tail"
  by (simp add: unica_example_def str_def)

lemma unica_example_start:
  "rx_search cpython (Bos # unica_start_rx) unica_example_tail 0 = Some (0, 38)"
  by (simp add: unica_example_tail_def regex_eval str_def cpython_def)

lemma unica_example_end:
  "rx_search cpython unica_end_rx unica_example_tail 0 = None"
  by (simp add: unica_example_tail_def regex_eval str_def cpython_def)

lemma unica_example_split:
  "str_split 10 (str_strip cpython unica_example_tail) = unica_example_lines"
  by (simp add: unica_example_tail_def unica_example_lines_def str_def str_strip_def
      strip_by_def cpython_def unicode_space_def)

lemma unica_example_header_row:
  "header_row_index cpython (map (normalize_text cpython) unica_headers)
     unica_example_lines = Some 1"
  by (simp add: unica_headers_def normalize_eval header_row_index_def has_headers_def
      unica_example_lines_def)

lemma unica_example_data_lines:
  "drop (Suc (Suc 0)) unica_example_lines = [str ''te3 | 10 | 12,5'']"
  by (simp add: unica_example_lines_def)

lemma unica_example_row:
  "add_line cpython unica_headers (str ''te3 | 10 | 12,5'')
     (fold (\<lambda>header. AList.update header []) unica_headers []) =
   unica_example_columns"
  by (simp add: add_line_def line_parts_def skipped_def dash_like_def en_dash_def
      add_row_def append_cell_def unica_headers_def unica_example_columns_def cell_eval)

lemma unica_example_padded:
  "pad_columns unica_headers unica_example_columns = unica_example_columns"
  by (simp add: pad_columns_def max_len_def unica_headers_def
      unica_example_columns_def str_def)

lemma unica_example_parsed:
  "parse_table_to_columns cpython t unica_example_tail unica_headers
     (Bos # unica_start_rx) (Some unica_end_rx) = unica_example_columns"
  by (simp add: parse_table_to_columns_def unica_example_start unica_example_end
      unica_example_split unica_example_header_row unica_example_data_lines
      unica_example_row unica_example_padded Let_def)

lemma unica_example_rows:
  "columns_to_tarifas (expand_unica_table unica_example_columns) =
     [\<lparr>tarifa = Text (str ''te3''), potencia_contratada = Number (Dec 10),
       P1 = Number (Dec 12.5), P2 = Number (Dec 12.5), P3 = Number (Dec 12.5),
       P4 = Number (Dec 12.5), P5 = Number (Dec 12.5), P6 = Number (Dec 12.5)\<rparr>]"
  by (simp add: columns_to_tarifas_def expand_unica_table_def max_len_def row_at_def
      column_at_def unica_example_columns_def upt_1_7 str_def Let_def)

text \<open>
  A text with two markers, at 0 and at 92: the only row is the one below the second
  marker; the row \<^verbatim>\<open>vieja | 1 | 2\<close> between the two markers is not in the result.
\<close>

theorem unica_last_occurrence_witness:
  "finditer cpython unica_start_rx (normalize_text cpython unica_example) 0 =
     [(0, 38), (92, 130)] \<and>
   tarifas (tabla_precio_clasica_unica (termino_de_energia
      (extract_price_tables_from_text cpython unica_example))) =
     [\<lparr>tarifa = Text (str ''te3''), potencia_contratada = Number (Dec 10),
       P1 = Number (Dec 12.5), P2 = Number (Dec 12.5), P3 = Number (Dec 12.5),
       P4 = Number (Dec 12.5), P5 = Number (Dec 12.5), P6 = Number (Dec 12.5)\<rparr>]"
proof -
  have m: "finditer cpython unica_start_rx (normalize_text cpython unica_example) 0 =
     [(0, 38), (92, 130)]"
    by (simp add: unica_example_normalized unica_example_matches)
  have l: "2 \<le> length [(0::nat, 38::nat), (92, 130)]"
    by simp
  from unica_last_occurrence [OF m l] show ?thesis
    by (simp add: unica_example_normalized unica_example_matches unica_example_slice
        unica_example_parsed unica_example_rows)
qed

subsection \<open>Where the string cells come from\<close>













lemma column_texts_append [simp]:
  "column_texts (v @ w) = column_texts v @ column_texts w"
  by (simp add: column_texts_def)

lemma column_texts_replicate_Null [simp]: "column_texts (replicate n Null) = []"
  by (induction n) (simp_all add: column_texts_def)

lemma table_texts_simps [simp]:
  "table_texts [] = []"
  "table_texts ((k, v) # al) = column_texts v @ table_texts al"
  by (simp_all add: table_texts_def)

















end
